theory Spec2Isabelle
  imports Complex_Main "HOL-Library.Word" "HOL-Library.Char_ord" "HOL-Library.List_Lexorder"
    "HOL-Library.Sublist"
begin

section \<open>Values of the raw patient record\<close>

text \<open>
  The patient record is what \<^verbatim>\<open>json.load\<close> returns: \<^verbatim>\<open>None\<close>, \<^verbatim>\<open>bool\<close>, \<^verbatim>\<open>int\<close>,
  \<^verbatim>\<open>float\<close>, \<^verbatim>\<open>str\<close>, \<^verbatim>\<open>list\<close> and \<^verbatim>\<open>dict\<close>. A dict is an association list in
  insertion order (its keys are pairwise distinct in Python). A finite float is read as the
  rational it denotes; the non-standard literals NaN and Infinity are not represented.
\<close>

datatype json =
    JNull
  | JBool bool
  | JInt int
  | JFloat rat
  | JStr string
  | JList "json list"
  | JObj "(string \<times> json) list"

text \<open>The exceptions that the modelled code can raise.\<close>

datatype py_error =
    KeyError
  | TypeError
  | AttributeError
  | AssertionError
  | ValueError
  | IndexError
  | OSError
  | RecursionError
  | OverflowError

section \<open>Python dictionaries and sequences\<close>

type_synonym ('k, 'v) dict = "('k \<times> 'v) list"

definition keys :: "('k, 'v) dict \<Rightarrow> 'k list" where
  "keys d = map fst d"

definition has_key :: "('k, 'v) dict \<Rightarrow> 'k \<Rightarrow> bool" where
  "has_key d k = (map_of d k \<noteq> None)"

text \<open>\<^verbatim>\<open>d[k] = v\<close>: an existing key keeps its position, a new key goes to the end.\<close>

fun dict_set :: "('k, 'v) dict \<Rightarrow> 'k \<Rightarrow> 'v \<Rightarrow> ('k, 'v) dict" where
  "dict_set [] k v = [(k, v)]"
| "dict_set ((k', v') # d) k v =
     (if k' = k then (k, v) # d else (k', v') # dict_set d k v)"

text \<open>\<^verbatim>\<open>d[k]\<close>: a missing key raises \<^verbatim>\<open>KeyError\<close>.\<close>

definition dict_get :: "('k, 'v) dict \<Rightarrow> 'k \<Rightarrow> py_error + 'v" where
  "dict_get d k = (case map_of d k of None \<Rightarrow> Inl KeyError | Some v \<Rightarrow> Inr v)"

text \<open>\<^verbatim>\<open>xs[i]\<close> for a Python int: a negative index counts from the end.\<close>

definition py_index :: "'a list \<Rightarrow> int \<Rightarrow> py_error + 'a" where
  "py_index xs i =
     (if 0 \<le> i \<and> i < int (length xs) then Inr (xs ! nat i)
      else if i < 0 \<and> - int (length xs) \<le> i then Inr (xs ! nat (int (length xs) + i))
      else Inl IndexError)"

text \<open>\<^verbatim>\<open>range(lo, hi)\<close> as a list of ints; empty when \<open>hi \<le> lo\<close>.\<close>

definition py_range :: "int \<Rightarrow> int \<Rightarrow> int list" where
  "py_range lo hi = map (\<lambda>k. lo + int k) [0 ..< nat (hi - lo)]"

text \<open>\<^verbatim>\<open>s.split(c)\<close> with a one-character separator.\<close>

fun py_split :: "char \<Rightarrow> string \<Rightarrow> string list" where
  "py_split c [] = [[]]"
| "py_split c (x # xs) =
     (if x = c then [] # py_split c xs
      else (case py_split c xs of [] \<Rightarrow> [[x]] | w # ws \<Rightarrow> (x # w) # ws))"

text \<open>\<^verbatim>\<open>sep.join(parts)\<close>.\<close>

fun py_join :: "string \<Rightarrow> string list \<Rightarrow> string" where
  "py_join sep [] = []"
| "py_join sep [w] = w"
| "py_join sep (w # ws) = w @ sep @ py_join sep ws"

text \<open>\<^verbatim>\<open>pat in s\<close> on strings: \<open>pat\<close> occurs contiguously in \<open>s\<close>.\<close>

fun py_in_str :: "string \<Rightarrow> string \<Rightarrow> bool" where
  "py_in_str pat [] = (pat = [])"
| "py_in_str pat (x # xs) = (prefix pat (x # xs) \<or> py_in_str pat xs)"

text \<open>A loop whose body may raise: the first exception ends it, with the state as it is then.\<close>

fun for_each :: "('a \<Rightarrow> 's \<Rightarrow> 's \<times> py_error option) \<Rightarrow> 'a list \<Rightarrow> 's \<Rightarrow> 's \<times> py_error option" where
  "for_each body [] s = (s, None)"
| "for_each body (x # xs) s =
     (case body x s of
        (s', None) \<Rightarrow> for_each body xs s'
      | (s', Some e) \<Rightarrow> (s', Some e))"

section \<open>Record Extractor\<close>

subsection \<open>\<^verbatim>\<open>get_surgery_label\<close>\<close>

text \<open>\<^verbatim>\<open>type(v) == int\<close> holds for a Python int only; a bool is not accepted.\<close>

fun is_int :: "json \<Rightarrow> bool" where
  "is_int (JInt n) = True"
| "is_int _ = False"

fun int_of :: "json \<Rightarrow> int" where
  "int_of (JInt n) = n"
| "int_of _ = 0"

fun get_surgery_label :: "json \<Rightarrow> int option" where
  "get_surgery_label (JObj side_dict) =
     (case map_of side_dict ''surgery'' of
        None \<Rightarrow> None
      | Some (JInt n) \<Rightarrow> Some n
      | Some (JList l) \<Rightarrow>
          (case filter is_int l of [] \<Rightarrow> None | j # _ \<Rightarrow> Some (int_of j))
      | Some _ \<Rightarrow> None)"
| "get_surgery_label _ = None"

subsection \<open>Images, dictionary entries and the extractor's state\<close>

text \<open>
  A loaded image is a greyscale array of unsigned bytes, kept as its list of rows.
  The image dictionary holds, per sample key, the empty \<^verbatim>\<open>dict()\<close> placed at
  initialisation, the stacked pair \<^verbatim>\<open>np.stack([sag, trv])\<close>, or (sequence mode) the list
  of such pairs. A covariate entry is a plain \<^verbatim>\<open>dict\<close> or a \<^verbatim>\<open>defaultdict(list)\<close>.
\<close>

type_synonym image = "8 word list list"

datatype img_entry =
    ImgEmptyDict
  | ImgStack image image
  | ImgSeq "(image \<times> image) list"

datatype cov_entry =
    CovDict "(string, json) dict"
  | CovDefaultDict "(string, json) dict"

type_synonym data_dicts =
  "(string, img_entry) dict \<times> (string, int) dict \<times> (string, cov_entry) dict \<times> string list"

text \<open>
  The two image preprocessors read and write files, so they take the state of the file
  system \<open>'w\<close> and return the new one beside the array or the exception.
\<close>

record 'w preprocessors =
  run_process_input_image :: "'w \<Rightarrow> string \<Rightarrow> (py_error + image) \<times> 'w"
  run_special_ST_preprocessing :: "'w \<Rightarrow> string \<Rightarrow> (py_error + image) \<times> 'w"

text \<open>
  The arguments of \<^verbatim>\<open>get_data_dicts\<close> other than the record. \<open>update_num\<close> holds the
  text that the f-string renders for it.
\<close>

record config =
  data_dir :: string
  update_num :: "string option"
  silent_trial :: bool
  last_visit_only :: bool
  seq :: bool
  include_baseline_date :: bool

record 'w extractor_state =
  world :: 'w
  img_dict :: "(string, img_entry) dict"
  label_dict :: "(string, int) dict"
  cov_dict :: "(string, cov_entry) dict"

definition and_then ::
  "'s \<times> py_error option \<Rightarrow> ('s \<Rightarrow> 's \<times> py_error option) \<Rightarrow> 's \<times> py_error option" where
  "and_then r f = (case r of (s, None) \<Rightarrow> f s | (s, Some e) \<Rightarrow> (s, Some e))"

subsection \<open>\<^verbatim>\<open>assign_images\<close> and \<^verbatim>\<open>assign_covariates\<close>\<close>

definition shape :: "image \<Rightarrow> nat \<times> nat" where
  "shape im = (length im, case im of [] \<Rightarrow> 0 | r # _ \<Rightarrow> length r)"

text \<open>\<^verbatim>\<open>np.stack\<close> raises \<^verbatim>\<open>ValueError\<close> unless all arrays have one shape.\<close>

definition np_stack :: "image \<Rightarrow> image \<Rightarrow> py_error + image \<times> image" where
  "np_stack a b = (if shape a = shape b then Inr (a, b) else Inl ValueError)"

text \<open>
  \<^verbatim>\<open>assign_images\<close> as \<^verbatim>\<open>get_data_dicts\<close> calls it, with \<^verbatim>\<open>split_view=False\<close>. In
  sequence mode the entry is looked up and its \<^verbatim>\<open>append\<close> resolved before the pair is
  stacked.
\<close>

definition assign_images ::
  "(string, img_entry) dict \<Rightarrow> string \<Rightarrow> image \<Rightarrow> image \<Rightarrow> bool \<Rightarrow>
     py_error + (string, img_entry) dict" where
  "assign_images imgs dict_key sag_img trv_img sq =
     (if \<not> sq then
        (case np_stack sag_img trv_img of
           Inl e \<Rightarrow> Inl e
         | Inr (a, b) \<Rightarrow> Inr (dict_set imgs dict_key (ImgStack a b)))
      else
        (case map_of imgs dict_key of
           None \<Rightarrow> Inl KeyError
         | Some (ImgSeq l) \<Rightarrow>
             (case np_stack sag_img trv_img of
                Inl e \<Rightarrow> Inl e
              | Inr p \<Rightarrow> Inr (dict_set imgs dict_key (ImgSeq (l @ [p]))))
         | Some _ \<Rightarrow> Inl AttributeError))"

fun cov_items :: "cov_entry \<Rightarrow> (string, json) dict" where
  "cov_items (CovDict d) = d"
| "cov_items (CovDefaultDict d) = d"

fun cov_setitem :: "cov_entry \<Rightarrow> string \<Rightarrow> json \<Rightarrow> cov_entry" where
  "cov_setitem (CovDict d) k v = CovDict (dict_set d k v)"
| "cov_setitem (CovDefaultDict d) k v = CovDefaultDict (dict_set d k v)"

text \<open>
  \<^verbatim>\<open>c[k].append(v)\<close>: a \<^verbatim>\<open>defaultdict(list)\<close> creates the missing list, a plain dict
  raises \<^verbatim>\<open>KeyError\<close>, and a value that is no list has no \<^verbatim>\<open>append\<close>.
\<close>

definition cov_append :: "cov_entry \<Rightarrow> string \<Rightarrow> json \<Rightarrow> py_error + cov_entry" where
  "cov_append c k v =
     (case map_of (cov_items c) k of
        None \<Rightarrow>
          (case c of
             CovDefaultDict d \<Rightarrow> Inr (CovDefaultDict (dict_set d k (JList [v])))
           | CovDict d \<Rightarrow> Inl KeyError)
      | Some (JList l) \<Rightarrow> Inr (cov_setitem c k (JList (l @ [v])))
      | Some _ \<Rightarrow> Inl AttributeError)"

text \<open>One statement on \<^verbatim>\<open>cov_dict[dict_key]\<close>; the dictionary is mutated in place.\<close>

definition cov_update ::
  "string \<Rightarrow> (cov_entry \<Rightarrow> py_error + cov_entry) \<Rightarrow> (string, cov_entry) dict \<Rightarrow>
     (string, cov_entry) dict \<times> py_error option" where
  "cov_update dict_key f covs =
     (case map_of covs dict_key of
        None \<Rightarrow> (covs, Some KeyError)
      | Some c \<Rightarrow>
          (case f c of
             Inl e \<Rightarrow> (covs, Some e)
           | Inr c' \<Rightarrow> (dict_set covs dict_key c', None)))"

text \<open>\<^verbatim>\<open>sex if type(sex) == int else (1 if sex == "M" else 2)\<close>.\<close>

definition sex_code :: "json \<Rightarrow> json" where
  "sex_code sex = (if is_int sex then sex else if sex = JStr ''M'' then JInt 1 else JInt 2)"

text \<open>\<open>bl_date\<close> is \<open>JNull\<close> for Python's \<^verbatim>\<open>None\<close>.\<close>

definition assign_covariates ::
  "(string, cov_entry) dict \<Rightarrow> string \<Rightarrow> json \<Rightarrow> json \<Rightarrow> json \<Rightarrow> bool \<Rightarrow> json \<Rightarrow>
     (string, cov_entry) dict \<times> py_error option" where
  "assign_covariates covs dict_key machine sex age_wks sq bl_date =
     (if \<not> sq then
        and_then (cov_update dict_key (\<lambda>c. Inr (cov_setitem c ''US_machine'' machine)) covs)
         (\<lambda>covs. and_then (cov_update dict_key (\<lambda>c. Inr (cov_setitem c ''Sex'' (sex_code sex))) covs)
         (\<lambda>covs. and_then (cov_update dict_key (\<lambda>c. Inr (cov_setitem c ''Age_wks'' age_wks)) covs)
         (\<lambda>covs. if bl_date \<noteq> JNull
                  then cov_update dict_key (\<lambda>c. Inr (cov_setitem c ''BL_date'' bl_date)) covs
                  else (covs, None))))
      else
        and_then (cov_update dict_key (\<lambda>c. cov_append c ''US_machine'' machine) covs)
         (\<lambda>covs. and_then (cov_update dict_key (\<lambda>c. cov_append c ''Sex'' (sex_code sex)) covs)
         (\<lambda>covs. and_then (cov_update dict_key (\<lambda>c. cov_append c ''Age_wks'' age_wks) covs)
         (\<lambda>covs. if bl_date \<noteq> JNull
                  then cov_update dict_key (\<lambda>c. Inr (cov_setitem c ''BL_date'' bl_date)) covs
                  else (covs, None)))))"

subsection \<open>\<^verbatim>\<open>get_data_dicts\<close>\<close>

text \<open>
  \<^verbatim>\<open>age_wks < bound\<close> and \<^verbatim>\<open>age_wks > bound\<close> against an int: numbers compare (a bool as
  0 or 1), anything else raises \<^verbatim>\<open>TypeError\<close>.
\<close>

fun py_lt_int :: "json \<Rightarrow> int \<Rightarrow> py_error + bool" where
  "py_lt_int (JInt n) b = Inr (n < b)"
| "py_lt_int (JFloat r) b = Inr (r < of_int b)"
| "py_lt_int (JBool t) b = Inr ((if t then 1 else 0) < b)"
| "py_lt_int _ b = Inl TypeError"

fun py_gt_int :: "json \<Rightarrow> int \<Rightarrow> py_error + bool" where
  "py_gt_int (JInt n) b = Inr (n > b)"
| "py_gt_int (JFloat r) b = Inr (r > of_int b)"
| "py_gt_int (JBool t) b = Inr ((if t then 1 else 0) > b)"
| "py_gt_int _ b = Inl TypeError"

text \<open>
  \<^verbatim>\<open>np.setdiff1d(a, b)\<close>: the sorted, duplicate-free values of \<open>a\<close> that are not in \<open>b\<close>.
\<close>

definition np_setdiff1d :: "string list \<Rightarrow> string list \<Rightarrow> string list" where
  "np_setdiff1d a b = sort (remdups (filter (\<lambda>x. x \<notin> set b) a))"

text \<open>The two \<^verbatim>\<open>if dict_key not in ...\<close> initialisations.\<close>

definition init_entries :: "bool \<Rightarrow> string \<Rightarrow> 'w extractor_state \<Rightarrow> 'w extractor_state" where
  "init_entries sq dict_key s =
     s\<lparr>img_dict :=
         (if has_key (img_dict s) dict_key then img_dict s
          else dict_set (img_dict s) dict_key (if \<not> sq then ImgEmptyDict else ImgSeq [])),
       cov_dict :=
         (if has_key (cov_dict s) dict_key then cov_dict s
          else dict_set (cov_dict s) dict_key (if \<not> sq then CovDict [] else CovDefaultDict []))\<rparr>"

text \<open>
  \<^verbatim>\<open>process_input_image(data_dir + visit[view])\<close> (silent trial) or
  \<^verbatim>\<open>special_ST_preprocessing(data_dir + visit[view])\<close>; a path that is no string cannot be
  concatenated to \<^verbatim>\<open>data_dir\<close>.
\<close>

definition load_view ::
  "'w preprocessors \<Rightarrow> config \<Rightarrow> (string, json) dict \<Rightarrow> string \<Rightarrow> 'w \<Rightarrow> (py_error + image) \<times> 'w" where
  "load_view pp cfg visit view w =
     (case map_of visit view of
        None \<Rightarrow> (Inl KeyError, w)
      | Some (JStr path) \<Rightarrow>
          (if silent_trial cfg then run_process_input_image pp w (data_dir cfg @ path)
           else run_special_ST_preprocessing pp w (data_dir cfg @ path))
      | Some _ \<Rightarrow> (Inl TypeError, w))"

text \<open>
  The four assertions after the insertion. The keys read were written just before, so the
  \<^verbatim>\<open>defaultdict\<close> creates nothing here.
\<close>

definition post_assertions :: "'w extractor_state \<Rightarrow> string \<Rightarrow> py_error option" where
  "post_assertions s dict_key =
     (case map_of (label_dict s) dict_key of
        None \<Rightarrow> Some KeyError
      | Some y \<Rightarrow>
     (case map_of (img_dict s) dict_key of
        None \<Rightarrow> Some KeyError
      | Some im \<Rightarrow>
     (case map_of (cov_dict s) dict_key of
        None \<Rightarrow> Some KeyError
      | Some c \<Rightarrow>
     (case map_of (cov_items c) ''Sex'' of
        None \<Rightarrow> (case c of CovDict d \<Rightarrow> Some KeyError | CovDefaultDict d \<Rightarrow> None)
      | Some JNull \<Rightarrow> Some AssertionError
      | Some _ \<Rightarrow>
     (case map_of (cov_items c) ''Age_wks'' of
        None \<Rightarrow> (case c of CovDict d \<Rightarrow> Some KeyError | CovDefaultDict d \<Rightarrow> None)
      | Some JNull \<Rightarrow> Some AssertionError
      | Some _ \<Rightarrow> None)))))"

text \<open>Lines 352 to 374: initialise, load both views, assign, assert.\<close>

definition insert_sample ::
  "'w preprocessors \<Rightarrow> config \<Rightarrow> (string, json) dict \<Rightarrow> string \<Rightarrow> json \<Rightarrow> json \<Rightarrow> json \<Rightarrow> json \<Rightarrow>
     int \<Rightarrow> 'w extractor_state \<Rightarrow> 'w extractor_state \<times> py_error option" where
  "insert_sample pp cfg visit dict_key machine sex age_wks bl_date surgery s0 =
     (let s1 = init_entries (seq cfg) dict_key s0 in
      case load_view pp cfg visit ''sag'' (world s1) of
        (Inl e, w) \<Rightarrow> (s1\<lparr>world := w\<rparr>, Some e)
      | (Inr sag_img, w) \<Rightarrow>
     (case load_view pp cfg visit ''trv'' w of
        (Inl e, w') \<Rightarrow> (s1\<lparr>world := w'\<rparr>, Some e)
      | (Inr trv_img, w') \<Rightarrow>
     (case assign_images (img_dict s1) dict_key sag_img trv_img (seq cfg) of
        Inl e \<Rightarrow> (s1\<lparr>world := w'\<rparr>, Some e)
      | Inr imgs \<Rightarrow>
     (case assign_covariates (cov_dict s1) dict_key machine sex age_wks (seq cfg) bl_date of
        (covs, Some e) \<Rightarrow>
          (s1\<lparr>world := w', img_dict := imgs,
              label_dict := dict_set (label_dict s1) dict_key surgery, cov_dict := covs\<rparr>, Some e)
      | (covs, None) \<Rightarrow>
          (let s2 = s1\<lparr>world := w', img_dict := imgs,
                       label_dict := dict_set (label_dict s1) dict_key surgery, cov_dict := covs\<rparr>
           in (s2, post_assertions s2 dict_key))))))"

text \<open>The body of \<^verbatim>\<open>for us_num in us_nums\<close>.\<close>

definition process_visit ::
  "'w preprocessors \<Rightarrow> config \<Rightarrow> string \<Rightarrow> (string, json) dict \<Rightarrow> string \<Rightarrow> (string, json) dict \<Rightarrow>
     int \<Rightarrow> string \<Rightarrow> 'w extractor_state \<Rightarrow> 'w extractor_state \<times> py_error option" where
  "process_visit pp cfg study_id pt side side_dict surgery us_num s =
     (case map_of side_dict us_num of
        None \<Rightarrow> (s, Some KeyError)
      | Some (JObj visit) \<Rightarrow>
         (case map_of visit ''Age_wks'' of
            None \<Rightarrow> (s, Some KeyError)
          | Some age_wks \<Rightarrow>
             if age_wks = JStr ''NA'' \<or> age_wks = JNull
                \<or> \<not> (has_key visit ''sag'' \<and> has_key visit ''trv'')
             then (s, None)
             else
               (let dict_key = study_id @ ''_'' @ side
                      @ (if \<not> seq cfg then ''_'' @ us_num else [])
                      @ (case update_num cfg of Some u \<Rightarrow> ''_'' @ u | None \<Rightarrow> [])
                in
                case map_of visit ''US_machine'' of
                  None \<Rightarrow> (s, Some KeyError)
                | Some machine \<Rightarrow>
               (case map_of pt ''Sex'' of
                  None \<Rightarrow> (s, Some KeyError)
                | Some sex \<Rightarrow>
               (case (if include_baseline_date cfg then dict_get pt ''BL_date'' else Inr JNull) of
                  Inl e \<Rightarrow> (s, Some e)
                | Inr bl_date \<Rightarrow>
                   if surgery \<noteq> 0 \<and> surgery \<noteq> 1 then (s, None)
                   else
                     (case py_lt_int age_wks 0 of
                        Inl e \<Rightarrow> (s, Some e)
                      | Inr True \<Rightarrow> (s, None)
                      | Inr False \<Rightarrow>
                     (case py_gt_int age_wks (52 * 10) of
                        Inl e \<Rightarrow> (s, Some e)
                      | Inr True \<Rightarrow> (s, None)
                      | Inr False \<Rightarrow>
                          insert_sample pp cfg visit dict_key machine sex age_wks bl_date
                            surgery s))))))
      | Some _ \<Rightarrow> (s, Some TypeError))"

text \<open>
  The body of \<^verbatim>\<open>for side in sides\<close>. With \<^verbatim>\<open>last_visit_only\<close> the code binds \<^verbatim>\<open>us_nums\<close>
  to the string \<^verbatim>\<open>sorted(us_nums)[-1]\<close>, and the loop over it visits its characters.
\<close>

definition process_side ::
  "'w preprocessors \<Rightarrow> config \<Rightarrow> string \<Rightarrow> (string, json) dict \<Rightarrow> string \<Rightarrow>
     'w extractor_state \<Rightarrow> 'w extractor_state \<times> py_error option" where
  "process_side pp cfg study_id pt side s =
     (case map_of pt side of
        None \<Rightarrow> (s, Some KeyError)
      | Some (JObj side_dict) \<Rightarrow>
          (let us_nums = filter (\<lambda>my_key. my_key \<noteq> ''surgery'') (keys side_dict) in
           case get_surgery_label (JObj side_dict) of
             None \<Rightarrow> (s, None)
           | Some surgery \<Rightarrow>
               if us_nums = [] then (s, None)
               else for_each (process_visit pp cfg study_id pt side side_dict surgery)
                      (if last_visit_only cfg then map (\<lambda>c. [c]) (last (sort us_nums))
                       else us_nums) s)
      | Some _ \<Rightarrow> (s, Some AttributeError))"

text \<open>
  The body of \<^verbatim>\<open>for study_id in in_dict.keys()\<close> with its \<^verbatim>\<open>try\<close>: \<^verbatim>\<open>AttributeError\<close> and
  \<^verbatim>\<open>AssertionError\<close> are printed and the loop goes on, with the dictionaries as they are.
\<close>

definition patient_body ::
  "'w preprocessors \<Rightarrow> config \<Rightarrow> string \<times> json \<Rightarrow> 'w extractor_state \<Rightarrow>
     'w extractor_state \<times> py_error option" where
  "patient_body pp cfg entry s =
     (case entry of
        (study_id, JObj pt) \<Rightarrow>
          for_each (process_side pp cfg study_id pt)
            (np_setdiff1d (keys pt) [''BL_date'', ''Sex'']) s
      | (study_id, _) \<Rightarrow> (s, Some AttributeError))"

definition process_patient ::
  "'w preprocessors \<Rightarrow> config \<Rightarrow> string \<times> json \<Rightarrow> 'w extractor_state \<Rightarrow>
     'w extractor_state \<times> py_error option" where
  "process_patient pp cfg entry s =
     (case patient_body pp cfg entry s of
        (s', Some AttributeError) \<Rightarrow> (s', None)
      | (s', Some AssertionError) \<Rightarrow> (s', None)
      | (s', r) \<Rightarrow> (s', r))"

definition get_data_dicts ::
  "'w preprocessors \<Rightarrow> config \<Rightarrow> (string, json) dict \<Rightarrow> 'w \<Rightarrow> py_error + data_dicts \<times> 'w" where
  "get_data_dicts pp cfg in_dict w =
     (case for_each (process_patient pp cfg) in_dict
             \<lparr>world = w, img_dict = [], label_dict = [], cov_dict = []\<rparr> of
        (s, Some e) \<Rightarrow> Inl e
      | (s, None) \<Rightarrow> Inr ((img_dict s, label_dict s, cov_dict s, keys (img_dict s)), world s))"

section \<open>Image Preprocessor\<close>

text \<open>
  The file system as the preprocessor sees it: the images stored under their paths and the
  directories made. \<^verbatim>\<open>Image.open\<close> of a path that holds no image raises an \<^verbatim>\<open>OSError\<close>.
  The numeric pipeline of \<^verbatim>\<open>special_ST_preprocessing\<close> (greyscale to float, resize to
  \<^verbatim>\<open>output_dim\<close>, \<^verbatim>\<open>set_contrast\<close>, save as RGB, reload as greyscale) is the parameter
  \<open>render\<close>.
\<close>

record file_system =
  files :: "(string, image) dict"
  dirs :: "string list"

definition path_exists :: "file_system \<Rightarrow> string \<Rightarrow> bool" where
  "path_exists w p = (has_key (files w) p \<or> p \<in> set (dirs w))"

definition image_open :: "file_system \<Rightarrow> string \<Rightarrow> py_error + image" where
  "image_open w p = (case map_of (files w) p of None \<Rightarrow> Inl OSError | Some im \<Rightarrow> Inr im)"

text \<open>The \<^verbatim>\<open>else\<close> branch of \<^verbatim>\<open>special_ST_preprocessing\<close>: compute, cache, reload.\<close>

definition special_cached ::
  "(image \<Rightarrow> image) \<Rightarrow> file_system \<Rightarrow> string \<Rightarrow> (py_error + image) \<times> file_system" where
  "special_cached render w img_file =
     (let parts = py_split CHR ''/'' img_file;
          img_name = last parts;
          img_folder = py_join ''/'' (butlast (butlast parts));
          w1 = (if \<not> path_exists w (img_folder @ ''/Preprocessed/'')
                then w\<lparr>dirs := dirs w @ [img_folder @ ''/Preprocessed/'']\<rparr> else w);
          out_img_filename = img_folder @ ''/Preprocessed/''
             @ hd (py_split CHR ''.'' img_name) @ ''-preprocessed.png''
      in
      if \<not> path_exists w1 out_img_filename then
        (case image_open w1 img_file of
           Inl e \<Rightarrow> (Inl e, w1)
         | Inr image_grey \<Rightarrow>
             (let w2 = w1\<lparr>files := dict_set (files w1) out_img_filename (render image_grey)\<rparr>
              in (image_open w2 out_img_filename, w2)))
      else (image_open w1 out_img_filename, w1))"

text \<open>
  \<^verbatim>\<open>process_input_image\<close> and \<^verbatim>\<open>special_ST_preprocessing\<close> call each other; they are one
  recursive function with the entry point as an argument. Not returning is \<open>None\<close>.
\<close>

datatype entry_point = ProcessInputImage | SpecialST

partial_function (option) preprocess ::
  "(image \<Rightarrow> image) \<Rightarrow> entry_point \<Rightarrow> file_system \<Rightarrow> string \<Rightarrow>
     ((py_error + image) \<times> file_system) option" where
  "preprocess render ep w img_file =
     (if ep = ProcessInputImage then
        (case image_open w img_file of
           Inl e \<Rightarrow> Some (Inl e, w)
         | Inr fit_img \<Rightarrow>
             if fst (shape fit_img) \<noteq> 256 \<or> snd (shape fit_img) \<noteq> 256
             then preprocess render SpecialST w img_file
             else Some (Inr fit_img, w))
      else
        (if py_in_str ''preprocessed'' img_file
         then preprocess render ProcessInputImage w img_file
         else Some (special_cached render w img_file)))"

definition process_input_image ::
  "(image \<Rightarrow> image) \<Rightarrow> file_system \<Rightarrow> string \<Rightarrow> ((py_error + image) \<times> file_system) option" where
  "process_input_image render = preprocess render ProcessInputImage"

definition special_ST_preprocessing ::
  "(image \<Rightarrow> image) \<Rightarrow> file_system \<Rightarrow> string \<Rightarrow> ((py_error + image) \<times> file_system) option" where
  "special_ST_preprocessing render = preprocess render SpecialST"

section \<open>Train/test split: \<^verbatim>\<open>load_dataset\<close>\<close>

text \<open>
  The parts of the libraries that the repository calls: reading a JSON file whose root is
  an object, the permutation of \<open>0..<n\<close> that \<^verbatim>\<open>sklearn.utils.shuffle(random_state=42)\<close>
  applies to its arguments, the two stratified splitters of \<^verbatim>\<open>sklearn\<close> (seeded with 42),
  and the image preprocessors.
\<close>

record 'w library =
  json_load :: "'w \<Rightarrow> string \<Rightarrow> py_error + (string, json) dict"
  permutation_42 :: "nat \<Rightarrow> nat list"
  stratified_kfold :: "int \<Rightarrow> string list \<Rightarrow> int list \<Rightarrow> py_error + (int list \<times> int list) list"
  stratified_shuffle_split :: "rat \<Rightarrow> string list \<Rightarrow> int list \<Rightarrow> py_error + (int list \<times> int list) list"
  image_layer :: "'w preprocessors"

definition sk_shuffle :: "'w library \<Rightarrow> 'a list \<Rightarrow> 'a list" where
  "sk_shuffle lib xs = map (\<lambda>j. xs ! j) (permutation_42 lib (length xs))"

text \<open>Python's \<^verbatim>\<open>round\<close>: to the nearest integer, a tie to the even one.\<close>

definition py_round :: "rat \<Rightarrow> int" where
  "py_round x =
     (let f = \<lfloor>x\<rfloor>; d = x - of_int f
      in if d < 1 / 2 then f else if 1 / 2 < d then f + 1 else if even f then f else f + 1)"

text \<open>
  Python's \<^verbatim>\<open>float\<close> is the IEEE 754 binary64 format. A finite float is read as the rational it
  denotes; an operation computes the exact result and rounds it to the nearest float, a tie
  to the one with an even significand. \<open>round_to_float p ulp_min\<close> is that rounding for a
  format with \<open>p\<close> significand bits whose smallest subnormal is \<open>2 ^ ulp_min\<close>, with no bound
  on the exponent: the result is a multiple of the unit in the last place at the magnitude
  of the argument. A result of magnitude \<open>2 ^ 1024\<close> or more is an infinity in binary64.
\<close>

function bit_length :: "int \<Rightarrow> nat" where
  "bit_length n = (if n \<le> 0 then 0 else Suc (bit_length (n div 2)))"
  by pat_completeness auto

termination
  by (relation "measure nat") auto

declare bit_length.simps [simp del]

definition pow2 :: "int \<Rightarrow> rat" where
  "pow2 z = (if 0 \<le> z then 2 ^ nat z else 1 / 2 ^ nat (- z))"

text \<open>\<open>\<lfloor>log\<^sub>2 a\<rfloor>\<close> for a positive rational \<open>a\<close>.\<close>

definition floor_log2 :: "rat \<Rightarrow> int" where
  "floor_log2 a =
     (case quotient_of a of
        (p, q) \<Rightarrow>
          (let d = int (bit_length p) - int (bit_length q)
           in if pow2 d \<le> a then d else d - 1))"

definition round_to_float :: "nat \<Rightarrow> int \<Rightarrow> rat \<Rightarrow> rat" where
  "round_to_float p ulp_min x =
     (if x = 0 then 0
      else (let ulp = pow2 (max (floor_log2 \<bar>x\<bar> - (int p - 1)) ulp_min)
            in of_int (py_round (x / ulp)) * ulp))"

text \<open>The float nearest to a real number, as for the literals \<^verbatim>\<open>0.2\<close> and \<^verbatim>\<open>0.8\<close>.\<close>

definition to_double :: "rat \<Rightarrow> rat" where
  "to_double = round_to_float 53 (- 1074)"

text \<open>The magnitude is below \<open>2 ^ 1024\<close>.\<close>

definition finite_double :: "rat \<Rightarrow> bool" where
  "finite_double x = (x = 0 \<or> floor_log2 \<bar>x\<bar> < 1024)"

text \<open>
  \<^verbatim>\<open>n * x\<close> for an \<^verbatim>\<open>int\<close> \<open>n\<close> and a \<^verbatim>\<open>float\<close> \<open>x\<close>: \<open>n\<close> is converted, then the product rounded.
  An \<^verbatim>\<open>int\<close> too large for a float raises \<^verbatim>\<open>OverflowError\<close> at the conversion; an infinite
  product raises it in \<^verbatim>\<open>round\<close> and in \<^verbatim>\<open>math.floor\<close>, the two uses of the product.
\<close>

definition float_mul_int :: "int \<Rightarrow> rat \<Rightarrow> py_error + rat" where
  "float_mul_int n x =
     (let nf = to_double (of_int n) in
      if \<not> finite_double nf then Inl OverflowError
      else (let p = to_double (nf * x) in
            if finite_double p then Inr p else Inl OverflowError))"

text \<open>\<^verbatim>\<open>round(n * x)\<close> and \<^verbatim>\<open>math.floor(n * x)\<close>.\<close>

definition round_mul :: "int \<Rightarrow> rat \<Rightarrow> py_error + int" where
  "round_mul n x = (case float_mul_int n x of Inl e \<Rightarrow> Inl e | Inr p \<Rightarrow> Inr (py_round p))"

definition floor_mul :: "int \<Rightarrow> rat \<Rightarrow> py_error + int" where
  "floor_mul n x = (case float_mul_int n x of Inl e \<Rightarrow> Inl e | Inr p \<Rightarrow> Inr \<lfloor>p\<rfloor>)"

text \<open>\<^verbatim>\<open>in_dict.pop('SU2bae8dc', None)\<close>.\<close>

definition dict_pop :: "('k, 'v) dict \<Rightarrow> 'k \<Rightarrow> ('k, 'v) dict" where
  "dict_pop d k = filter (\<lambda>kv. fst kv \<noteq> k) d"

text \<open>One round of the \<^verbatim>\<open>BL_dates\<close> loop: \<^verbatim>\<open>in_dict[my_key].keys()\<close> needs a dict.\<close>

fun bl_date_or_default :: "json \<Rightarrow> py_error + json" where
  "bl_date_or_default (JObj pt) =
     Inr (case map_of pt ''BL_date'' of Some d \<Rightarrow> d | None \<Rightarrow> JStr ''2021-01-01'')"
| "bl_date_or_default _ = Inl AttributeError"

fun collect :: "('a \<Rightarrow> py_error + 'b) \<Rightarrow> 'a list \<Rightarrow> py_error + 'b list" where
  "collect f [] = Inr []"
| "collect f (x # xs) =
     (case f x of
        Inl e \<Rightarrow> Inl e
      | Inr y \<Rightarrow> (case collect f xs of Inl e \<Rightarrow> Inl e | Inr ys \<Rightarrow> Inr (y # ys)))"

text \<open>
  \<^verbatim>\<open>for i in idxs: study_id = ids[i]; out[study_id] = in_dict[study_id]\<close>.
\<close>

fun copy_patients ::
  "(string, json) dict \<Rightarrow> string list \<Rightarrow> int list \<Rightarrow> (string, json) dict \<Rightarrow>
     py_error + (string, json) dict" where
  "copy_patients in_dict ids [] out = Inr out"
| "copy_patients in_dict ids (i # idxs) out =
     (case py_index ids i of
        Inl e \<Rightarrow> Inl e
      | Inr study_id \<Rightarrow>
          (case dict_get in_dict study_id of
             Inl e \<Rightarrow> Inl e
           | Inr v \<Rightarrow> copy_patients in_dict ids idxs (dict_set out study_id v)))"

text \<open>
  \<^verbatim>\<open>sorted(zip(pt_ids, BL_dates))\<close> compares the pairs lexicographically. The first
  components are the keys of a dict, hence pairwise distinct, so Python never looks at a
  date: the order is the stable order by patient ID.
\<close>

definition sorted_pt_BL_dates :: "string list \<Rightarrow> json list \<Rightarrow> (string \<times> json) list" where
  "sorted_pt_BL_dates pt_ids BL_dates = sort_key fst (zip pt_ids BL_dates)"

definition split_ordered ::
  "(string, json) dict \<Rightarrow> json list \<Rightarrow> rat \<Rightarrow>
     py_error + (string, json) dict \<times> (string, json) dict" where
  "split_ordered in_dict BL_dates test_prop =
     (let pt_ids = keys in_dict;
          sorted_ids = map fst (sorted_pt_BL_dates pt_ids BL_dates);
          n = int (length pt_ids)
      in
      case round_mul n test_prop of
        Inl e \<Rightarrow> Inl e
      | Inr test_n \<Rightarrow>
     (case copy_patients in_dict sorted_ids (py_range 0 (n - test_n)) [] of
        Inl e \<Rightarrow> Inl e
      | Inr train_out \<Rightarrow>
          (case copy_patients in_dict sorted_ids (py_range (n - test_n + 1) n) [] of
             Inl e \<Rightarrow> Inl e
           | Inr test_out \<Rightarrow> Inr (train_out, test_out))))"

definition split_shuffled ::
  "'w library \<Rightarrow> (string, json) dict \<Rightarrow> rat \<Rightarrow>
     py_error + (string, json) dict \<times> (string, json) dict" where
  "split_shuffled lib in_dict test_prop =
     (let shuffled_pt_id = sk_shuffle lib (keys in_dict);
          n = int (length shuffled_pt_id)
      in
      case round_mul n test_prop of
        Inl e \<Rightarrow> Inl e
      | Inr test_n \<Rightarrow>
     (case copy_patients in_dict shuffled_pt_id (py_range 0 test_n) [] of
        Inl e \<Rightarrow> Inl e
      | Inr test_out \<Rightarrow>
          (case copy_patients in_dict shuffled_pt_id (py_range (test_n + 1) n) [] of
             Inl e \<Rightarrow> Inl e
           | Inr train_out \<Rightarrow> Inr (train_out, test_out))))"

text \<open>
  \<^verbatim>\<open>load_dataset\<close>; \<open>test_prop\<close> is a float, read as the rational it denotes. The test
  dictionary is \<open>None\<close> for \<^verbatim>\<open>train_only\<close>.
\<close>

definition load_dataset ::
  "'w library \<Rightarrow> 'w \<Rightarrow> string \<Rightarrow> rat \<Rightarrow> string \<Rightarrow> bool \<Rightarrow> bool \<Rightarrow>
     py_error + (string, json) dict \<times> (string, json) dict option" where
  "load_dataset lib w json_infile test_prop ddir ordered_split train_only =
     (case json_load lib w (ddir @ json_infile) of
        Inl e \<Rightarrow> Inl e
      | Inr loaded \<Rightarrow>
          (let in_dict = dict_pop loaded ''SU2bae8dc'' in
           if train_only then Inr (in_dict, None)
           else
             (case collect bl_date_or_default (map snd in_dict) of
                Inl e \<Rightarrow> Inl e
              | Inr BL_dates \<Rightarrow>
                  (case (if ordered_split then split_ordered in_dict BL_dates test_prop
                         else split_shuffled lib in_dict test_prop) of
                     Inl e \<Rightarrow> Inl e
                   | Inr (train_out, test_out) \<Rightarrow> Inr (train_out, Some test_out)))))"

definition load_test_dataset ::
  "'w library \<Rightarrow> 'w \<Rightarrow> string \<Rightarrow> string \<Rightarrow> py_error + (string, json) dict" where
  "load_test_dataset lib w json_infile ddir =
     (case json_load lib w (ddir @ json_infile) of
        Inl e \<Rightarrow> Inl e
      | Inr loaded \<Rightarrow> Inr (dict_pop loaded ''SU2bae8dc''))"

section \<open>Split Engine\<close>

definition make_cross_validation_sets ::
  "'w library \<Rightarrow> string list \<Rightarrow> int list \<Rightarrow> int \<Rightarrow> py_error + (int list \<times> int list) list" where
  "make_cross_validation_sets lib train_study_ids train_labels num_folds =
     stratified_kfold lib num_folds train_study_ids train_labels"

text \<open>\<^verbatim>\<open>c[k]\<close> on a covariate entry; a \<^verbatim>\<open>defaultdict(list)\<close> answers a missing key with \<^verbatim>\<open>[]\<close>.\<close>

definition cov_getitem :: "cov_entry \<Rightarrow> string \<Rightarrow> py_error + json" where
  "cov_getitem c k =
     (case map_of (cov_items c) k of
        Some v \<Rightarrow> Inr v
      | None \<Rightarrow> (case c of CovDict d \<Rightarrow> Inl KeyError | CovDefaultDict d \<Rightarrow> Inr (JList [])))"

text \<open>
  Python's \<^verbatim>\<open>==\<close> and \<^verbatim>\<open><\<close> on the values of a record. Numbers (\<^verbatim>\<open>bool\<close> included) compare by
  value, strings and lists lexicographically, dicts are equal when they hold equal values
  under the same keys; \<^verbatim>\<open><\<close> between values of different kinds, on \<^verbatim>\<open>None\<close> and on dicts is
  a \<^verbatim>\<open>TypeError\<close>. Two lists are compared at the first position where they are not equal.
\<close>

fun num_value :: "json \<Rightarrow> rat option" where
  "num_value (JInt n) = Some (of_int n)"
| "num_value (JFloat r) = Some r"
| "num_value (JBool b) = Some (if b then 1 else 0)"
| "num_value _ = None"

function (sequential) py_eq :: "json \<Rightarrow> json \<Rightarrow> bool" where
  "py_eq (JList xs) b =
     (case b of
        JList ys \<Rightarrow> length xs = length ys \<and> list_all (\<lambda>(x, y). py_eq x y) (zip xs ys)
      | _ \<Rightarrow> False)"
| "py_eq (JObj d) b =
     (case b of
        JObj d' \<Rightarrow>
          length (remdups (map fst d)) = length (remdups (map fst d')) \<and>
          list_all (\<lambda>(k, v). case map_of d' k of Some v' \<Rightarrow> py_eq v v' | None \<Rightarrow> False) d
      | _ \<Rightarrow> False)"
| "py_eq (JStr s) b = (b = JStr s)"
| "py_eq JNull b = (b = JNull)"
| "py_eq a b = (case (num_value a, num_value b) of (Some x, Some y) \<Rightarrow> x = y | _ \<Rightarrow> False)"
  by pat_completeness auto

termination py_eq
proof (relation "measure (\<lambda>(a, b). size a)", goal_cases)
  case 1
  show ?case by simp
next
  case (2 xs b ys z x y)
  have "u \<in> set us \<Longrightarrow> size u < Suc (size_list size us)" for u :: json and us
    by (induction us) auto
  moreover from 2 have "x \<in> set xs" by (auto dest: set_zip_leftD)
  ultimately show ?case by simp
next
  case (3 d b d' z k v v')
  have "(a, u) \<in> set e \<Longrightarrow> size u < Suc (size_list (size_prod (\<lambda>x. 0) size) e)"
    for a :: string and u :: json and e
    by (induction e) auto
  moreover from 3 have "(k, v) \<in> set d" by simp
  ultimately show ?case by simp
qed

fun py_lt :: "json \<Rightarrow> json \<Rightarrow> py_error + bool"
  and py_lt_elems :: "json list \<Rightarrow> json list \<Rightarrow> py_error + bool" where
  "py_lt (JStr s) b = (case b of JStr t \<Rightarrow> Inr (s < t) | _ \<Rightarrow> Inl TypeError)"
| "py_lt (JList xs) b = (case b of JList ys \<Rightarrow> py_lt_elems xs ys | _ \<Rightarrow> Inl TypeError)"
| "py_lt a b =
     (case (num_value a, num_value b) of
        (Some x, Some y) \<Rightarrow> Inr (x < y)
      | _ \<Rightarrow> Inl TypeError)"
| "py_lt_elems [] ys = Inr (ys \<noteq> [])"
| "py_lt_elems (x # xs) [] = Inr False"
| "py_lt_elems (x # xs) (y # ys) = (if py_eq x y then py_lt_elems xs ys else py_lt x y)"

text \<open>
  \<^verbatim>\<open>sorted(xs, key=f)\<close>: the stable sort by \<^verbatim>\<open><\<close> on the keys. A sort has to compare the keys
  that end up next to each other, so with keys of one kind (all strings, all numbers, all
  empty lists, ...) it returns, and with keys of two kinds it raises \<^verbatim>\<open>TypeError\<close>; a single
  element is never compared. When two of the keys cannot be compared the model raises; for
  nested lists whose elements are of mixed kinds, Python raises when its sort comes to
  compare the two.
\<close>

definition comparable :: "json \<Rightarrow> json \<Rightarrow> bool" where
  "comparable a b = (py_lt a b \<noteq> Inl TypeError \<and> py_lt b a \<noteq> Inl TypeError)"

fun pairwise_comparable :: "json list \<Rightarrow> bool" where
  "pairwise_comparable [] = True"
| "pairwise_comparable (k # ks) = (list_all (comparable k) ks \<and> pairwise_comparable ks)"

fun insert_by_key :: "('a \<Rightarrow> json) \<Rightarrow> 'a \<Rightarrow> 'a list \<Rightarrow> 'a list" where
  "insert_by_key f x [] = [x]"
| "insert_by_key f x (y # ys) =
     (if py_lt (f y) (f x) = Inr True then y # insert_by_key f x ys else x # y # ys)"

definition py_sorted_key :: "('a \<Rightarrow> json) \<Rightarrow> 'a list \<Rightarrow> py_error + 'a list" where
  "py_sorted_key f xs =
     (if pairwise_comparable (map f xs) then Inr (foldr (insert_by_key f) xs [])
      else Inl TypeError)"

text \<open>\<^verbatim>\<open>xs[:e]\<close>.\<close>

definition py_slice_to :: "'a list \<Rightarrow> int \<Rightarrow> 'a list" where
  "py_slice_to xs e = (if 0 \<le> e then take (nat e) xs else take (length xs - nat (- e)) xs)"

definition make_train_val_split ::
  "'w library \<Rightarrow> string list \<Rightarrow> int list \<Rightarrow> (string, cov_entry) dict \<Rightarrow> rat \<Rightarrow> bool \<Rightarrow>
     py_error + (int list \<times> int list) list" where
  "make_train_val_split lib train_study_ids train_labels train_cov_dict split ordered_split =
     (if ordered_split then
        (case collect (\<lambda>study_key. case dict_get train_cov_dict study_key of
                               Inl e \<Rightarrow> Inl e
                             | Inr c \<Rightarrow> cov_getitem c ''BL_date'') train_study_ids of
           Inl e \<Rightarrow> Inl e
         | Inr date \<Rightarrow>
             (case py_sorted_key snd (zip train_study_ids date) of
                Inl e \<Rightarrow> Inl e
              | Inr sorted_id_date \<Rightarrow>
                  if sorted_id_date = [] then Inl IndexError
                  else
                    (let sorted_ids = map fst sorted_id_date in
                     case floor_mul (int (length sorted_ids)) split of
                       Inl e \<Rightarrow> Inl e
                     | Inr end_idx \<Rightarrow>
                    (let train_ids = py_slice_to sorted_ids end_idx;
                         idxs = [0 ..< length train_study_ids];
                         train_idx =
                           map int (filter (\<lambda>i. train_study_ids ! i \<in> set train_ids) idxs);
                         val_idx =
                           map int (filter (\<lambda>i. train_study_ids ! i \<notin> set train_ids) idxs)
                     in Inr [(sk_shuffle lib train_idx, sk_shuffle lib val_idx)]))))
      else stratified_shuffle_split lib split train_study_ids train_labels)"

section \<open>Dataset Adapter\<close>

record kidney_dataset =
  ds_image_dict :: "(string, img_entry) dict"
  ds_label_dict :: "(string, int) dict"
  ds_cov_dict :: "(string, cov_entry) dict"
  ds_study_ids :: "string list"
  ds_include_cov :: bool

definition KidneyDataset :: "data_dicts \<Rightarrow> bool \<Rightarrow> kidney_dataset" where
  "KidneyDataset data_dicts include_cov =
     (case data_dicts of (imgs, labels, covs, ids) \<Rightarrow>
        \<lparr>ds_image_dict = imgs, ds_label_dict = labels, ds_cov_dict = covs,
         ds_study_ids = ids, ds_include_cov = include_cov\<rparr>)"

text \<open>
  Float tensors are nested lists of numbers, read as exact rationals: rank 3 for a stacked
  pair, rank 4 for a sequence of stacked pairs.
\<close>

datatype float_tensor =
    Tensor3 "rat list list list"
  | Tensor4 "rat list list list list"

definition to_float :: "image \<Rightarrow> rat list list" where
  "to_float im = map (map (\<lambda>px. of_nat (unat px))) im"

text \<open>
  \<^verbatim>\<open>torch.FloatTensor(img)\<close>: a list of arrays converts only when all have one shape, and
  a dict does not convert.
\<close>

fun FloatTensor_img :: "img_entry \<Rightarrow> py_error + float_tensor" where
  "FloatTensor_img ImgEmptyDict = Inl TypeError"
| "FloatTensor_img (ImgStack a b) = Inr (Tensor3 [to_float a, to_float b])"
| "FloatTensor_img (ImgSeq l) =
     (if list_all (\<lambda>p. shape (fst p) = shape (fst (hd l))) l
      then Inr (Tensor4 (map (\<lambda>p. [to_float (fst p), to_float (snd p)]) l))
      else Inl ValueError)"

fun tensor_div :: "float_tensor \<Rightarrow> rat \<Rightarrow> float_tensor" where
  "tensor_div (Tensor3 t) c = Tensor3 (map (map (map (\<lambda>x. x / c))) t)"
| "tensor_div (Tensor4 t) c = Tensor4 (map (map (map (map (\<lambda>x. x / c)))) t)"

fun tensor_elems :: "float_tensor \<Rightarrow> rat list" where
  "tensor_elems (Tensor3 t) = concat (concat t)"
| "tensor_elems (Tensor4 t) = concat (concat (concat t))"

text \<open>\<^verbatim>\<open>torch.FloatTensor(age)\<close> on a list of numbers.\<close>

fun float_of_json :: "json \<Rightarrow> py_error + rat" where
  "float_of_json (JInt n) = Inr (of_int n)"
| "float_of_json (JFloat r) = Inr r"
| "float_of_json (JBool t) = Inr (if t then 1 else 0)"
| "float_of_json _ = Inl TypeError"

fun FloatTensor_list :: "json \<Rightarrow> py_error + rat list" where
  "FloatTensor_list (JList l) = collect float_of_json l"
| "FloatTensor_list _ = Inl TypeError"

text \<open>
  \<^verbatim>\<open>type(a) in [int, float, np.int32, np.float32, np.float64]\<close> on a value of the record.
\<close>

fun is_number :: "json \<Rightarrow> bool" where
  "is_number (JInt n) = True"
| "is_number (JFloat r) = True"
| "is_number _ = False"

record feature_bundle =
  bundle_img :: float_tensor
  bundle_Age_wks :: "rat list option"
  bundle_Side_L :: "rat list option"

definition getitem :: "kidney_dataset \<Rightarrow> int \<Rightarrow> py_error + feature_bundle \<times> int \<times> string" where
  "getitem ds index =
     (case py_index (ds_study_ids ds) index of
        Inl e \<Rightarrow> Inl e
      | Inr study_key \<Rightarrow>
     (case dict_get (ds_image_dict ds) study_key of
        Inl e \<Rightarrow> Inl e
      | Inr img \<Rightarrow>
     (case dict_get (ds_label_dict ds) study_key of
        Inl e \<Rightarrow> Inl e
      | Inr y \<Rightarrow>
     (case dict_get (ds_cov_dict ds) study_key of
        Inl e \<Rightarrow> Inl e
      | Inr cov \<Rightarrow>
     (let id_split = py_split CHR ''_'' study_key in
      case FloatTensor_img img of
        Inl e \<Rightarrow> Inl e
      | Inr t \<Rightarrow>
     (let data_img = tensor_div t 255 in
      if ds_include_cov ds then
        (case cov_getitem cov ''Age_wks'' of
           Inl e \<Rightarrow> Inl e
         | Inr a \<Rightarrow>
        (case FloatTensor_list (if is_number a then JList [a] else a) of
           Inl e \<Rightarrow> Inl e
         | Inr age \<Rightarrow>
        (case py_index id_split 1 of
           Inl e \<Rightarrow> Inl e
         | Inr side \<Rightarrow>
             Inr (\<lparr>bundle_img = data_img, bundle_Age_wks = Some age,
                   bundle_Side_L = Some (replicate (length age) (if side = ''Left'' then 1 else 0))\<rparr>,
                  y, study_key))))
      else Inr (\<lparr>bundle_img = data_img, bundle_Age_wks = None, bundle_Side_L = None\<rparr>,
                y, study_key)))))))"

definition len_dataset :: "kidney_dataset \<Rightarrow> nat" where
  "len_dataset ds = length (ds_study_ids ds)"

section \<open>Data Module Orchestrator\<close>

record args =
  arg_json_infile :: string
  arg_data_dir :: string
  arg_ordered_split :: bool
  arg_train_only :: bool
  arg_single_visit :: bool
  arg_ordered_validation :: bool
  arg_include_validation :: bool
  arg_cv :: bool
  arg_num_folds :: int
  arg_include_cov :: bool
  arg_json_st_test :: string
  arg_json_stan_test :: string
  arg_json_ui_test :: string

text \<open>A \<^verbatim>\<open>DataLoader\<close> is the dataset it serves and the keyword arguments given to it.\<close>

record data_loader =
  loader_dataset :: kidney_dataset
  loader_params :: "(string, json) dict"

text \<open>The attributes of \<^verbatim>\<open>KidneyDataModule\<close>; \<open>None\<close> is Python's \<^verbatim>\<open>None\<close>.\<close>

record data_module =
  dm_args :: args
  train_dataloader_params :: "(string, json) dict"
  val_dataloader_params :: "(string, json) dict"
  debug :: bool
  train_dicts :: "data_dicts option"
  val_dicts :: "data_dicts option"
  fold :: int
  train_img_dict :: "(string, img_entry) dict option"
  train_label_dict :: "(string, int) dict option"
  train_cov_dict :: "(string, cov_entry) dict option"
  train_study_ids :: "string list option"
  train_val_idx_generator :: "(int list \<times> int list) list option"
  test_set :: "data_dicts option"
  st_test_set :: "data_dicts option"
  stan_test_set :: "data_dicts option"
  ui_test_set :: "data_dicts option"

definition init_data_module :: "args \<Rightarrow> (string, json) dict \<Rightarrow> bool \<Rightarrow> data_module" where
  "init_data_module a dataloader_params dbg =
     \<lparr>dm_args = a,
      train_dataloader_params = dataloader_params,
      val_dataloader_params = dict_set dataloader_params ''shuffle'' (JBool False),
      debug = dbg, train_dicts = None, val_dicts = None, fold = 0,
      train_img_dict = None, train_label_dict = None, train_cov_dict = None,
      train_study_ids = None, train_val_idx_generator = None,
      test_set = None, st_test_set = None, stan_test_set = None, ui_test_set = None\<rparr>"

text \<open>\<^verbatim>\<open>remove_bl_date\<close>: pop \<^verbatim>\<open>'BL_date'\<close> from every entry that has it.\<close>

fun cov_pop :: "cov_entry \<Rightarrow> string \<Rightarrow> cov_entry" where
  "cov_pop (CovDict d) k = CovDict (dict_pop d k)"
| "cov_pop (CovDefaultDict d) k = CovDefaultDict (dict_pop d k)"

definition remove_bl_date :: "(string, cov_entry) dict \<Rightarrow> (string, cov_entry) dict" where
  "remove_bl_date covs = map (\<lambda>uv. (fst uv, cov_pop (snd uv) ''BL_date'')) covs"

text \<open>The fold list that \<^verbatim>\<open>setup\<close> builds from the training dictionaries.\<close>

definition train_val_ids_generator ::
  "'w library \<Rightarrow> args \<Rightarrow> data_dicts \<Rightarrow> py_error + (int list \<times> int list) list" where
  "train_val_ids_generator lib a dicts =
     (case dicts of (imgs, labels, covs, ids) \<Rightarrow>
        if arg_include_validation a then
          (let train_labels = map snd labels in
           if arg_cv a then make_cross_validation_sets lib ids train_labels (arg_num_folds a)
           else make_train_val_split lib ids train_labels covs (to_double (8 / 10)) (arg_ordered_validation a))
        else Inr [(py_range 0 (int (length ids)), [])])"

definition setup_fit :: "'w library \<Rightarrow> data_module \<Rightarrow> 'w \<Rightarrow> py_error + data_module \<times> 'w" where
  "setup_fit lib dm w =
     (let a = dm_args dm in
      case load_dataset lib w (arg_json_infile a) (to_double (2 / 10)) (arg_data_dir a)
             (arg_ordered_split a) (arg_train_only a) of
        Inl e \<Rightarrow> Inl e
      | Inr (train_dict, test_dict) \<Rightarrow>
     (case get_data_dicts (image_layer lib)
             \<lparr>data_dir = arg_data_dir a, update_num = None, silent_trial = False,
              last_visit_only = False, seq = (\<not> arg_single_visit a),
              include_baseline_date = arg_ordered_validation a\<rparr> train_dict w of
        Inl e \<Rightarrow> Inl e
      | Inr ((imgs, labels, covs, ids), w1) \<Rightarrow>
     (case train_val_ids_generator lib a (imgs, labels, covs, ids) of
        Inl e \<Rightarrow> Inl e
      | Inr gen \<Rightarrow>
     (let dm1 = dm\<lparr>train_val_idx_generator := Some gen,
                    train_img_dict := Some imgs,
                    train_label_dict := Some labels,
                    train_cov_dict := Some (remove_bl_date covs),
                    train_study_ids := Some (keys imgs)\<rparr>
      in
      if \<not> arg_train_only a then
        (case test_dict of
           None \<Rightarrow> Inl AttributeError
         | Some td \<Rightarrow>
             (case get_data_dicts (image_layer lib)
                     \<lparr>data_dir = arg_data_dir a, update_num = None, silent_trial = False,
                      last_visit_only = arg_single_visit a, seq = (\<not> arg_single_visit a),
                      include_baseline_date = False\<rparr> td w1 of
                Inl e \<Rightarrow> Inl e
              | Inr (dicts, w2) \<Rightarrow> Inr (dm1\<lparr>test_set := Some dicts\<rparr>, w2)))
      else Inr (dm1, w1)))))"

definition setup_test_heldout ::
  "'w library \<Rightarrow> data_module \<Rightarrow> 'w \<Rightarrow> py_error + data_module \<times> 'w" where
  "setup_test_heldout lib dm w =
     (let a = dm_args dm;
          plain = \<lparr>data_dir = arg_data_dir a, update_num = None, silent_trial = False,
                   last_visit_only = False, seq = False, include_baseline_date = False\<rparr>
      in
      case load_test_dataset lib w (arg_json_st_test a) (arg_data_dir a) of
        Inl e \<Rightarrow> Inl e
      | Inr st_test_dict \<Rightarrow>
     (case get_data_dicts (image_layer lib) (plain\<lparr>silent_trial := True\<rparr>) st_test_dict w of
        Inl e \<Rightarrow> Inl e
      | Inr (st, w1) \<Rightarrow>
     (case load_test_dataset lib w1 (arg_json_stan_test a) (arg_data_dir a) of
        Inl e \<Rightarrow> Inl e
      | Inr stan_test_dict \<Rightarrow>
     (case get_data_dicts (image_layer lib) plain stan_test_dict w1 of
        Inl e \<Rightarrow> Inl e
      | Inr (stan, w2) \<Rightarrow>
     (case load_test_dataset lib w2 (arg_json_ui_test a) (arg_data_dir a) of
        Inl e \<Rightarrow> Inl e
      | Inr ui_test_dict \<Rightarrow>
     (case get_data_dicts (image_layer lib) plain ui_test_dict w2 of
        Inl e \<Rightarrow> Inl e
      | Inr (ui, w3) \<Rightarrow>
          Inr (dm\<lparr>st_test_set := Some st, stan_test_set := Some stan,
                  ui_test_set := Some ui\<rparr>, w3)))))))"

definition setup_dm :: "'w library \<Rightarrow> string \<Rightarrow> data_module \<Rightarrow> 'w \<Rightarrow> py_error + data_module \<times> 'w" where
  "setup_dm lib stage dm w =
     (if stage = ''fit'' then setup_fit lib dm w
      else if stage = ''test_heldout'' then setup_test_heldout lib dm w
      else Inr (dm, w))"

text \<open>\<^verbatim>\<open>arr[idx]\<close> on a numpy array with a sequence of ints.\<close>

definition np_take :: "'a list \<Rightarrow> int list \<Rightarrow> py_error + 'a list" where
  "np_take arr idx = collect (py_index arr) idx"

text \<open>\<^verbatim>\<open>{k: d[k] for k in ks}\<close>.\<close>

fun sub_dict :: "('k, 'v) dict \<Rightarrow> 'k list \<Rightarrow> ('k, 'v) dict \<Rightarrow> py_error + ('k, 'v) dict" where
  "sub_dict d [] out = Inr out"
| "sub_dict d (k # ks) out =
     (case dict_get d k of
        Inl e \<Rightarrow> Inl e
      | Inr v \<Rightarrow> sub_dict d ks (dict_set out k v))"

text \<open>The three comprehensions of \<^verbatim>\<open>train_dataloader\<close> and \<^verbatim>\<open>val_dataloader\<close>.\<close>

definition select_dicts :: "data_module \<Rightarrow> string list \<Rightarrow> py_error + data_dicts" where
  "select_dicts dm ids =
     (case train_img_dict dm of
        None \<Rightarrow> Inl TypeError
      | Some imgs \<Rightarrow>
     (case sub_dict imgs ids [] of
        Inl e \<Rightarrow> Inl e
      | Inr sel_imgs \<Rightarrow>
     (case train_label_dict dm of
        None \<Rightarrow> Inl TypeError
      | Some labels \<Rightarrow>
     (case sub_dict labels ids [] of
        Inl e \<Rightarrow> Inl e
      | Inr sel_labels \<Rightarrow>
     (case train_cov_dict dm of
        None \<Rightarrow> Inl TypeError
      | Some covs \<Rightarrow>
     (case sub_dict covs ids [] of
        Inl e \<Rightarrow> Inl e
      | Inr sel_covs \<Rightarrow> Inr (sel_imgs, sel_labels, sel_covs, ids)))))))"

definition fold_indices :: "data_module \<Rightarrow> py_error + int list \<times> int list" where
  "fold_indices dm =
     (case train_val_idx_generator dm of
        None \<Rightarrow> Inl TypeError
      | Some gen \<Rightarrow> py_index gen (fold dm))"

definition val_dataloader :: "data_module \<Rightarrow> py_error + data_loader option \<times> data_module" where
  "val_dataloader dm =
     (case fold_indices dm of
        Inl e \<Rightarrow> Inl e
      | Inr (train_idx, val_idx) \<Rightarrow>
     (case train_study_ids dm of
        None \<Rightarrow> Inl TypeError
      | Some ids \<Rightarrow>
     (case np_take ids val_idx of
        Inl e \<Rightarrow> Inl e
      | Inr val_ids \<Rightarrow>
          if length val_ids = 0 then Inr (None, dm)
          else
            (case select_dicts dm val_ids of
               Inl e \<Rightarrow> Inl e
             | Inr dicts \<Rightarrow>
                 (let dm1 = (if debug dm then dm\<lparr>val_dicts := Some dicts\<rparr> else dm);
                      val_set = KidneyDataset dicts (arg_include_cov (dm_args dm))
                  in Inr (Some \<lparr>loader_dataset = val_set,
                                 loader_params = val_dataloader_params dm\<rparr>, dm1))))))"

definition train_dataloader :: "data_module \<Rightarrow> py_error + data_loader \<times> data_module" where
  "train_dataloader dm =
     (case fold_indices dm of
        Inl e \<Rightarrow> Inl e
      | Inr (train_idx, val_idx) \<Rightarrow>
     (case train_study_ids dm of
        None \<Rightarrow> Inl TypeError
      | Some ids \<Rightarrow>
     (case np_take ids train_idx of
        Inl e \<Rightarrow> Inl e
      | Inr train_ids \<Rightarrow>
     (case select_dicts dm train_ids of
        Inl e \<Rightarrow> Inl e
      | Inr dicts \<Rightarrow>
          (let dm1 = (if debug dm then dm\<lparr>train_dicts := Some dicts\<rparr> else dm);
               training_set = KidneyDataset dicts (arg_include_cov (dm_args dm))
           in Inr (\<lparr>loader_dataset = training_set,
                    loader_params = train_dataloader_params dm\<rparr>, dm1))))))"

section \<open>Invariants of the extraction\<close>

definition caught :: "py_error option \<Rightarrow> bool" where
  "caught r = (r = None \<or> r = Some AttributeError \<or> r = Some AssertionError)"

text \<open>
  The key under which a visit is stored: \<^verbatim>\<open>study_id + "_" + side\<close>, then the visit unless
  the entries are sequences, then the update number if there is one.
\<close>

definition sample_key :: "config \<Rightarrow> string \<Rightarrow> string \<Rightarrow> string \<Rightarrow> string" where
  "sample_key cfg study_id side us_num =
     study_id @ ''_'' @ side
       @ (if \<not> seq cfg then ''_'' @ us_num else [])
       @ (case update_num cfg of Some u \<Rightarrow> ''_'' @ u | None \<Rightarrow> [])"

text \<open>Every stored label is 0 or 1 and \<open>Q\<close> relates it to the key it is stored under.\<close>

definition labels_ok :: "(string \<Rightarrow> int \<Rightarrow> bool) \<Rightarrow> 'w extractor_state \<Rightarrow> bool" where
  "labels_ok Q s =
     (\<forall>kv \<in> set (label_dict s). (snd kv = 0 \<or> snd kv = 1) \<and> Q (fst kv) (snd kv))"

text \<open>
  The label as the specification words it: a bare integer, or the first integer element
  of a list, and undefined otherwise.
\<close>

definition surgery_label_spec :: "json option \<Rightarrow> int option" where
  "surgery_label_spec field =
     (case field of
        Some (JInt n) \<Rightarrow> Some n
      | Some (JList l) \<Rightarrow> map_option int_of (find is_int l)
      | _ \<Rightarrow> None)"

definition same_keys :: "bool \<Rightarrow> 'w extractor_state \<Rightarrow> bool" where
  "same_keys sq s =
     (set (keys (img_dict s)) = set (keys (label_dict s))
      \<and> set (keys (cov_dict s)) = set (keys (label_dict s))
      \<and> (sq \<longrightarrow> (\<forall>ke \<in> set (img_dict s). \<exists>l. snd ke = ImgSeq l)))"

definition quiet :: "'w preprocessors \<Rightarrow> bool" where
  "quiet pp =
     (\<forall>w p. fst (run_process_input_image pp w p) \<noteq> Inl AttributeError
          \<and> fst (run_process_input_image pp w p) \<noteq> Inl AssertionError
          \<and> fst (run_special_ST_preprocessing pp w p) \<noteq> Inl AttributeError
          \<and> fst (run_special_ST_preprocessing pp w p) \<noteq> Inl AssertionError)"

definition keeps_keys ::
  "(('k, 'v) dict \<Rightarrow> ('k, 'v) dict \<times> py_error option) \<Rightarrow> bool" where
  "keeps_keys g = (\<forall>c c' q. g c = (c', q) \<longrightarrow> set (keys c') = set (keys c))"

text \<open>
  A patient entry on which the extraction raises \<^verbatim>\<open>AttributeError\<close> before anything is
  inserted: the entry is no object, or the first of its sides (in the sorted order in which
  they are visited) is no object.
\<close>

definition not_a_dict :: "json \<Rightarrow> bool" where
  "not_a_dict v = (case v of JObj d \<Rightarrow> False | _ \<Rightarrow> True)"


text \<open>
  The paths on which the two preprocessors call each other for ever: the path contains
  \<^verbatim>\<open>"preprocessed"\<close> and holds an image that is not 256 by 256.
\<close>

definition bounces :: "file_system \<Rightarrow> string \<Rightarrow> bool" where
  "bounces w img_file =
     (py_in_str ''preprocessed'' img_file
      \<and> (case image_open w img_file of
            Inl e \<Rightarrow> False
          | Inr fit_img \<Rightarrow> fst (shape fit_img) \<noteq> 256 \<or> snd (shape fit_img) \<noteq> 256))"

section \<open>Concrete inputs\<close>

text \<open>
  An image layer that returns a one-pixel image (the length of the path, mod 256) and
  records every path it is asked for; the file system is that list of paths.
\<close>

definition ex_preprocessors :: "string list preprocessors" where
  "ex_preprocessors =
     \<lparr>run_process_input_image = (\<lambda>w p. (Inr [[of_nat (length p)]], w @ [p])),
      run_special_ST_preprocessing = (\<lambda>w p. (Inr [[of_nat (length p)]], w @ [p]))\<rparr>"

definition ex_config :: config where
  "ex_config =
     \<lparr>data_dir = ''d/'', update_num = None, silent_trial = False, last_visit_only = False,
      seq = True, include_baseline_date = False\<rparr>"

definition ex_visit :: "string \<Rightarrow> int \<Rightarrow> json" where
  "ex_visit nm age =
     JObj [(''sag'', JStr (nm @ ''_sag.png'')), (''trv'', JStr (nm @ ''_trv.png'')),
           (''Age_wks'', JInt age), (''US_machine'', JStr ''X'')]"

text \<open>Patient P1 with one good visit of the left kidney; the entry of P2 is no object.\<close>

definition ex_record :: "(string, json) dict" where
  "ex_record =
     [(''P1'', JObj [(''Sex'', JStr ''M''), (''BL_date'', JStr ''2021-01-01''),
                     (''Left'', JObj [(''surgery'', JInt 1), (''1'', ex_visit ''a'' 10)])]),
      (''P2'', JStr ''corrupt'')]"

text \<open>
  Patient P1 with three sides: the label of \<^verbatim>\<open>Left\<close> is the first integer of a list, 1; the
  label of \<^verbatim>\<open>Right\<close> is 0; the label of \<^verbatim>\<open>Other\<close> is 2. Each side has one visit, and the
  visits are stored one by one.
\<close>

definition ex_record_sides :: "(string, json) dict" where
  "ex_record_sides =
     [(''P1'', JObj [(''Sex'', JStr ''M''),
                     (''Left'', JObj [(''surgery'', JList [JStr ''NA'', JInt 1]),
                                      (''1'', ex_visit ''a'' 10)]),
                     (''Right'', JObj [(''surgery'', JInt 0), (''2'', ex_visit ''b'' 10)]),
                     (''Other'', JObj [(''surgery'', JInt 2), (''3'', ex_visit ''c'' 10)])])]"

definition ex_config_visits :: config where
  "ex_config_visits =
     \<lparr>data_dir = ''d/'', update_num = None, silent_trial = False, last_visit_only = False,
      seq = False, include_baseline_date = False\<rparr>"


text \<open>
  One side with the visits \<^verbatim>\<open>"1"\<close> (age 10) and \<^verbatim>\<open>"11"\<close> (age 60): the last visit is
  \<^verbatim>\<open>"11"\<close>.
\<close>

definition ex_record_two_visits :: "(string, json) dict" where
  "ex_record_two_visits =
     [(''P1'', JObj [(''Sex'', JStr ''M''),
                     (''Left'', JObj [(''surgery'', JInt 1),
                                      (''1'', ex_visit ''first'' 10),
                                      (''11'', ex_visit ''eleventh'' 60)])])]"

text \<open>
  Ten patients whose IDs ascend while their baseline dates descend: P0 is the latest,
  P9 the earliest.
\<close>

definition ex_patients :: "(string, json) dict" where
  "ex_patients =
     [(''P0'', JObj [(''BL_date'', JStr ''2019-01-01'')]),
      (''P1'', JObj [(''BL_date'', JStr ''2018-01-01'')]),
      (''P2'', JObj [(''BL_date'', JStr ''2017-01-01'')]),
      (''P3'', JObj [(''BL_date'', JStr ''2016-01-01'')]),
      (''P4'', JObj [(''BL_date'', JStr ''2015-01-01'')]),
      (''P5'', JObj [(''BL_date'', JStr ''2014-01-01'')]),
      (''P6'', JObj [(''BL_date'', JStr ''2013-01-01'')]),
      (''P7'', JObj [(''BL_date'', JStr ''2012-01-01'')]),
      (''P8'', JObj [(''BL_date'', JStr ''2011-01-01'')]),
      (''P9'', JObj [(''BL_date'', JStr ''2010-01-01'')])]"

text \<open>
  A library whose JSON reader returns \<open>ex_patients\<close> for every file, whose shuffle is the
  identity and whose stratified splitters return no fold.
\<close>

definition ex_library :: "string list library" where
  "ex_library =
     \<lparr>json_load = (\<lambda>w p. Inr ex_patients),
      permutation_42 = (\<lambda>n. [0 ..< n]),
      stratified_kfold = (\<lambda>k ids labels. Inr []),
      stratified_shuffle_split = (\<lambda>split ids labels. Inr []),
      image_layer = ex_preprocessors\<rparr>"

text \<open>A file system with one image of one pixel, stored in a directory named "preprocessed".\<close>

definition ex_file_system :: file_system where
  "ex_file_system = \<lparr>files = [(''d/preprocessed/a.png'', [[0]])], dirs = []\<rparr>"

text \<open>
  A run of the data module on \<open>ex_record\<close>: training only, sequences, no validation.
\<close>

definition ex_args :: args where
  "ex_args =
     \<lparr>arg_json_infile = ''in.json'', arg_data_dir = ''d/'', arg_ordered_split = False,
      arg_train_only = True, arg_single_visit = False, arg_ordered_validation = False,
      arg_include_validation = False, arg_cv = False, arg_num_folds = 5,
      arg_include_cov = True, arg_json_st_test = ''st.json'',
      arg_json_stan_test = ''stan.json'', arg_json_ui_test = ''ui.json''\<rparr>"

definition ex_library_record :: "string list library" where
  "ex_library_record = ex_library\<lparr>json_load := (\<lambda>w p. Inr ex_record)\<rparr>"

definition ex_data_module :: data_module where
  "ex_data_module =
     (case setup_fit ex_library_record (init_data_module ex_args [(''batch_size'', JInt 1)] True) [] of
        Inr (dm, w) \<Rightarrow> dm
      | Inl e \<Rightarrow> init_data_module ex_args [] True)"

section \<open>Properties of the Record Extractor\<close>

lemma set_keys_dict_set: "set (keys (dict_set d k v)) = insert k (set (keys d))"
proof (induction d)
  case Nil
  show ?case by (simp add: keys_def)
next
  case (Cons a d)
  obtain k' v' where a: "a = (k', v')" by (cases a)
  show ?case using Cons by (cases "k' = k") (auto simp: keys_def a)
qed

lemma set_dict_set_subset: "set (dict_set d k v) \<subseteq> insert (k, v) (set d)"
proof (induction d)
  case Nil
  show ?case by simp
next
  case (Cons a d)
  obtain k' v' where a: "a = (k', v')" by (cases a)
  show ?case using Cons by (cases "k' = k") (auto simp: a)
qed

lemma map_of_dict_set: "map_of (dict_set d k v) = (map_of d)(k \<mapsto> v)"
  by (induction d) (auto simp: fun_eq_iff)

lemma has_key_iff: "has_key d k \<longleftrightarrow> k \<in> set (keys d)"
  by (simp add: has_key_def keys_def map_of_eq_None_iff)

lemma for_each_invariant:
  assumes "P s"
    and "\<And>x t t' r. x \<in> set xs \<Longrightarrow> P t \<Longrightarrow> body x t = (t', r) \<Longrightarrow> P t'"
    and "for_each body xs s = (s', r)"
  shows "P s'"
  using assms
proof (induction xs arbitrary: s)
  case Nil
  then show ?case by simp
next
  case (Cons x xs)
  obtain t q where b: "body x s = (t, q)" by (cases "body x s")
  have Pt: "P t" using Cons.prems(1,2) b by auto
  show ?case
  proof (cases q)
    case None
    then have "for_each body xs t = (s', r)" using Cons.prems(3) b by simp
    then show ?thesis using Cons.IH[OF Pt] Cons.prems(2) by auto
  next
    case (Some e)
    then show ?thesis using Cons.prems(3) b Pt by simp
  qed
qed

lemma for_each_invariant_caught:
  assumes "P s"
    and "\<And>x t t' r. x \<in> set xs \<Longrightarrow> P t \<Longrightarrow> body x t = (t', r) \<Longrightarrow> caught r \<Longrightarrow> P t'"
    and "for_each body xs s = (s', r)" and "caught r"
  shows "P s'"
  using assms
proof (induction xs arbitrary: s)
  case Nil
  then show ?case by simp
next
  case (Cons x xs)
  obtain t q where b: "body x s = (t, q)" by (cases "body x s")
  show ?case
  proof (cases q)
    case None
    then have Pt: "P t" using Cons.prems(1,2) b by (auto simp: caught_def)
    from None have "for_each body xs t = (s', r)" using Cons.prems(3) b by simp
    then show ?thesis using Cons.IH[OF Pt] Cons.prems(2,4) by auto
  next
    case (Some e)
    then have "t = s'" "r = Some e" using Cons.prems(3) b by auto
    then show ?thesis using Cons.prems(1,2,4) b Some by auto
  qed
qed

lemma cov_update_keys:
  assumes "cov_update k f covs = (covs', r)"
  shows "set (keys covs') = set (keys covs)"
proof (cases "map_of covs k")
  case None
  then show ?thesis using assms by (simp add: cov_update_def)
next
  case (Some c)
  then have kin: "k \<in> set (keys covs)"
    by (auto simp: keys_def dest!: map_of_SomeD intro: rev_image_eqI)
  show ?thesis
  proof (cases "f c")
    case (Inl e)
    then show ?thesis using assms Some by (simp add: cov_update_def)
  next
    case (Inr c')
    then have "covs' = dict_set covs k c'" using assms Some by (simp add: cov_update_def)
    then show ?thesis using kin by (auto simp: set_keys_dict_set)
  qed
qed

lemma keeps_keys_cov_update: "keeps_keys (cov_update k f)"
  unfolding keeps_keys_def using cov_update_keys by blast

lemma keeps_keys_and_then:
  assumes "keeps_keys g" and "keeps_keys h"
  shows "keeps_keys (\<lambda>c. and_then (g c) h)"
  unfolding keeps_keys_def
proof (intro allI impI)
  fix c c' q
  assume a: "and_then (g c) h = (c', q)"
  obtain d p where g: "g c = (d, p)" by (cases "g c")
  have d: "set (keys d) = set (keys c)" using assms(1) g unfolding keeps_keys_def by blast
  show "set (keys c') = set (keys c)"
  proof (cases p)
    case None
    then have "h d = (c', q)" using a g by (simp add: and_then_def)
    then have "set (keys c') = set (keys d)" using assms(2) unfolding keeps_keys_def by blast
    then show ?thesis using d by simp
  next
    case (Some e)
    then have "c' = d" using a g by (simp add: and_then_def)
    then show ?thesis using d by simp
  qed
qed

lemma keeps_keys_if:
  assumes "keeps_keys g"
  shows "keeps_keys (\<lambda>c. if b then g c else (c, None))"
  using assms by (simp add: keeps_keys_def)

lemma assign_covariates_keys:
  assumes "assign_covariates covs k m sx a sq bl = (covs', r)"
  shows "set (keys covs') = set (keys covs)"
proof -
  have "keeps_keys (\<lambda>c. assign_covariates c k m sx a sq bl)"
    unfolding assign_covariates_def
    by (cases sq)
       (simp_all only: if_True if_False not_True_eq_False not_False_eq_True,
        (intro keeps_keys_and_then keeps_keys_if keeps_keys_cov_update)+)
  then show ?thesis using assms unfolding keeps_keys_def by blast
qed

lemma init_entries_fields:
  "label_dict (init_entries sq k s) = label_dict s"
  "world (init_entries sq k s) = world s"
  "set (keys (img_dict (init_entries sq k s))) = insert k (set (keys (img_dict s)))"
  "set (keys (cov_dict (init_entries sq k s))) = insert k (set (keys (cov_dict s)))"
  by (auto simp: init_entries_def set_keys_dict_set has_key_iff)

lemma init_entries_seq:
  assumes "\<forall>ke \<in> set (img_dict s). \<exists>l. snd ke = ImgSeq l"
  shows "\<forall>ke \<in> set (img_dict (init_entries True k s)). \<exists>l. snd ke = ImgSeq l"
  using assms set_dict_set_subset[of "img_dict s" k "ImgSeq []"]
  by (auto simp: init_entries_def)

lemma insert_sample_cases:
  assumes "insert_sample pp cfg visit k m sx a bl surgery s0 = (s', r)"
  obtains (early) e where "r = Some e"
      "img_dict s' = img_dict (init_entries (seq cfg) k s0)"
      "label_dict s' = label_dict s0"
      "cov_dict s' = cov_dict (init_entries (seq cfg) k s0)"
      "(\<exists>view w. fst (load_view pp cfg visit view w) = Inl e)
        \<or> (\<exists>sag trv. assign_images (img_dict (init_entries (seq cfg) k s0)) k sag trv (seq cfg) = Inl e)"
  | (stored) sag trv imgs covs q where
      "assign_images (img_dict (init_entries (seq cfg) k s0)) k sag trv (seq cfg) = Inr imgs"
      "img_dict s' = imgs"
      "label_dict s' = dict_set (label_dict s0) k surgery"
      "assign_covariates (cov_dict (init_entries (seq cfg) k s0)) k m sx a (seq cfg) bl = (covs, q)"
      "cov_dict s' = covs"
proof -
  let ?s1 = "init_entries (seq cfg) k s0"
  obtain r1 w1 where l1: "load_view pp cfg visit ''sag'' (world ?s1) = (r1, w1)"
    by (cases "load_view pp cfg visit ''sag'' (world ?s1)")
  show ?thesis
  proof (cases r1)
    case (Inl e)
    then have "s' = ?s1\<lparr>world := w1\<rparr>" "r = Some e"
      using assms l1 by (auto simp: insert_sample_def Let_def)
    moreover have "fst (load_view pp cfg visit ''sag'' (world ?s1)) = Inl e"
      using l1 Inl by simp
    ultimately show ?thesis using early[of e] by (auto simp: init_entries_fields)
  next
    case (Inr sag)
    obtain r2 w2 where l2: "load_view pp cfg visit ''trv'' w1 = (r2, w2)"
      by (cases "load_view pp cfg visit ''trv'' w1")
    show ?thesis
    proof (cases r2)
      case (Inl e)
      then have "s' = ?s1\<lparr>world := w2\<rparr>" "r = Some e"
        using assms l1 l2 Inr by (auto simp: insert_sample_def Let_def)
      moreover have "fst (load_view pp cfg visit ''trv'' w1) = Inl e"
        using l2 Inl by simp
      ultimately show ?thesis using early[of e] by (auto simp: init_entries_fields)
    next
      case trv: (Inr trv)
      show ?thesis
      proof (cases "assign_images (img_dict ?s1) k sag trv (seq cfg)")
        case (Inl e)
        then have "s' = ?s1\<lparr>world := w2\<rparr>" "r = Some e"
          using assms l1 l2 Inr trv by (auto simp: insert_sample_def Let_def)
        then show ?thesis using early[of e] Inl by (auto simp: init_entries_fields)
      next
        case imgs: (Inr imgs)
        obtain covs q where ac:
          "assign_covariates (cov_dict ?s1) k m sx a (seq cfg) bl = (covs, q)"
          by (cases "assign_covariates (cov_dict ?s1) k m sx a (seq cfg) bl")
        have "img_dict s' = imgs \<and> label_dict s' = dict_set (label_dict s0) k surgery
            \<and> cov_dict s' = covs"
          using assms l1 l2 Inr trv imgs ac
          by (cases q) (auto simp: insert_sample_def Let_def init_entries_fields)
        then show ?thesis using stored[OF imgs _ _ ac] by simp
      qed
    qed
  qed
qed

lemma load_view_quiet:
  assumes "quiet pp"
  shows "fst (load_view pp cfg visit view w) \<noteq> Inl AttributeError"
    and "fst (load_view pp cfg visit view w) \<noteq> Inl AssertionError"
  using assms unfolding quiet_def load_view_def
  by (auto split: option.splits json.splits)

lemma assign_images_error:
  assumes "assign_images imgs k sag trv sq = Inl e"
    and "sq \<longrightarrow> (\<forall>ke \<in> set imgs. \<exists>l. snd ke = ImgSeq l)"
  shows "e \<noteq> AttributeError \<and> e \<noteq> AssertionError"
  using assms unfolding assign_images_def np_stack_def
  by (auto split: if_splits option.splits img_entry.splits sum.splits dest!: map_of_SomeD)

lemma assign_images_stored:
  assumes "assign_images imgs k sag trv sq = Inr imgs'"
  shows "set (keys imgs') = insert k (set (keys imgs))"
    and "sq \<Longrightarrow> \<forall>ke \<in> set imgs. \<exists>l. snd ke = ImgSeq l \<Longrightarrow> \<forall>ke \<in> set imgs'. \<exists>l. snd ke = ImgSeq l"
proof -
  obtain v where v: "imgs' = dict_set imgs k v" "sq \<longrightarrow> (\<exists>l. v = ImgSeq l)"
    using assms unfolding assign_images_def np_stack_def
    by (auto split: if_splits option.splits img_entry.splits sum.splits)
  show "set (keys imgs') = insert k (set (keys imgs))"
    using v by (simp add: set_keys_dict_set)
  show "\<forall>ke \<in> set imgs'. \<exists>l. snd ke = ImgSeq l"
    if "sq" "\<forall>ke \<in> set imgs. \<exists>l. snd ke = ImgSeq l"
    using that v set_dict_set_subset[of imgs k v] by auto
qed

lemma insert_sample_same_keys:
  assumes "insert_sample pp cfg visit k m sx a bl surgery s0 = (s', r)"
    and "quiet pp" and "same_keys (seq cfg) s0" and "caught r"
  shows "same_keys (seq cfg) s'"
proof -
  let ?s1 = "init_entries (seq cfg) k s0"
  have seq1: "seq cfg \<longrightarrow> (\<forall>ke \<in> set (img_dict ?s1). \<exists>l. snd ke = ImgSeq l)"
    using assms(3) init_entries_seq[of s0 k] by (auto simp: same_keys_def)
  from assms(1) show ?thesis
  proof (cases rule: insert_sample_cases)
    case (early e)
    have "e \<noteq> AttributeError \<and> e \<noteq> AssertionError"
      using early(5) load_view_quiet[OF assms(2)] assign_images_error seq1 by metis
    then show ?thesis using assms(4) early(1) by (simp add: caught_def)
  next
    case (stored sag trv imgs covs q)
    have "set (keys (img_dict s')) = insert k (set (keys (label_dict s0)))"
      using assign_images_stored(1)[OF stored(1)] stored(2) assms(3)
      by (simp add: init_entries_fields same_keys_def)
    moreover have "set (keys (cov_dict s')) = insert k (set (keys (label_dict s0)))"
      using assign_covariates_keys[OF stored(4)] stored(5) assms(3)
      by (simp add: init_entries_fields same_keys_def)
    moreover have "set (keys (label_dict s')) = insert k (set (keys (label_dict s0)))"
      using stored(3) by (simp add: set_keys_dict_set)
    moreover have "seq cfg \<longrightarrow> (\<forall>ke \<in> set (img_dict s'). \<exists>l. snd ke = ImgSeq l)"
      using assign_images_stored(2)[OF stored(1)] seq1 stored(2) by blast
    ultimately show ?thesis by (simp add: same_keys_def)
  qed
qed

lemma process_visit_cases:
  assumes "process_visit pp cfg study_id pt side sd surgery us_num s = (s', r)"
  obtains (unchanged) "s' = s"
  | (inserted) visit k m sx a bl where "surgery = 0 \<or> surgery = 1"
      "insert_sample pp cfg visit k m sx a bl surgery s = (s', r)"
      "map_of sd us_num = Some (JObj visit)" "k = sample_key cfg study_id side us_num"
  using assms unfolding process_visit_def Let_def sample_key_def
  by (auto split: option.splits json.splits if_splits sum.splits bool.splits)

lemma process_visit_same_keys:
  assumes "process_visit pp cfg study_id pt side sd surgery us_num s = (s', r)"
    and "quiet pp" and "same_keys (seq cfg) s" and "caught r"
  shows "same_keys (seq cfg) s'"
  using assms(1)
  by (cases rule: process_visit_cases) (use assms(2-) insert_sample_same_keys in blast)+

lemma process_side_cases:
  assumes "process_side pp cfg study_id pt side s = (s', r)"
  obtains (unchanged) "s' = s"
  | (visits) sd surgery us where
      "for_each (process_visit pp cfg study_id pt side sd surgery) us s = (s', r)"
      "map_of pt side = Some (JObj sd)" "get_surgery_label (JObj sd) = Some surgery"
  using assms unfolding process_side_def Let_def
  by (auto split: option.splits json.splits if_splits)

lemma process_side_same_keys:
  assumes "process_side pp cfg study_id pt side s = (s', r)"
    and "quiet pp" and "same_keys (seq cfg) s" and "caught r"
  shows "same_keys (seq cfg) s'"
  using assms(1)
proof (cases rule: process_side_cases)
  case unchanged
  then show ?thesis using assms(3) by simp
next
  case (visits sd surgery us)
  show ?thesis
    by (rule for_each_invariant_caught[where P = "same_keys (seq cfg)", OF assms(3) _ visits(1) assms(4)])
       (rule process_visit_same_keys[OF _ assms(2)])
qed

lemma patient_body_cases:
  assumes "patient_body pp cfg entry s = (s', r)"
  obtains (unchanged) "s' = s"
  | (sides) study_id pt sides where
      "for_each (process_side pp cfg study_id pt) sides s = (s', r)"
      "entry = (study_id, JObj pt)"
  using assms unfolding patient_body_def
  by (auto split: prod.splits json.splits)

lemma process_patient_body:
  assumes "process_patient pp cfg entry s = (s', r)"
  obtains r0 where "patient_body pp cfg entry s = (s', r0)" "caught r \<Longrightarrow> caught r0"
  using assms unfolding process_patient_def caught_def
  by (auto split: prod.splits option.splits py_error.splits)

lemma process_patient_same_keys:
  assumes "process_patient pp cfg entry s = (s', r)"
    and "quiet pp" and "same_keys (seq cfg) s" and "caught r"
  shows "same_keys (seq cfg) s'"
proof -
  obtain r0 where b: "patient_body pp cfg entry s = (s', r0)" and c: "caught r0"
    using assms(1,4) by (auto elim: process_patient_body)
  from b show ?thesis
  proof (cases rule: patient_body_cases)
    case unchanged
    then show ?thesis using assms(3) by simp
  next
    case (sides study_id pt sides)
    show ?thesis
      by (rule for_each_invariant_caught[where P = "same_keys (seq cfg)", OF assms(3) _ sides(1) c])
         (rule process_side_same_keys[OF _ assms(2)])
  qed
qed

lemma get_data_dicts_state:
  assumes "get_data_dicts pp cfg in_dict w = Inr ((imgs, labels, covs, ids), w')"
  obtains s where
    "for_each (process_patient pp cfg) in_dict
       \<lparr>world = w, img_dict = [], label_dict = [], cov_dict = []\<rparr> = (s, None)"
    "imgs = img_dict s" "labels = label_dict s" "covs = cov_dict s" "ids = keys (img_dict s)"
    "w' = world s"
  using assms unfolding get_data_dicts_def
  by (auto split: prod.splits option.splits)

lemma insert_sample_labels:
  assumes "insert_sample pp cfg visit k m sx a bl surgery s0 = (s', r)"
    and "labels_ok Q s0" and "surgery = 0 \<or> surgery = 1" and "Q k surgery"
  shows "labels_ok Q s'"
  using assms(1)
proof (cases rule: insert_sample_cases)
  case (early e)
  then show ?thesis using assms(2) by (simp add: labels_ok_def)
next
  case (stored sag trv imgs covs q)
  then show ?thesis
    using assms(2,3,4) set_dict_set_subset[of "label_dict s0" k surgery]
    by (auto simp: labels_ok_def)
qed

lemma process_visit_labels:
  assumes "process_visit pp cfg study_id pt side sd surgery us_num s = (s', r)"
    and "labels_ok Q s"
    and "\<And>visit. map_of sd us_num = Some (JObj visit)
           \<Longrightarrow> Q (sample_key cfg study_id side us_num) surgery"
  shows "labels_ok Q s'"
  using assms(1)
proof (cases rule: process_visit_cases)
  case unchanged
  then show ?thesis using assms(2) by simp
next
  case (inserted visit k m sx a bl)
  have "Q k surgery" using assms(3)[OF inserted(3)] inserted(4) by simp
  then show ?thesis using insert_sample_labels[OF inserted(2) assms(2) inserted(1)] by simp
qed

lemma process_side_labels:
  assumes "process_side pp cfg study_id pt side s = (s', r)" and "labels_ok Q s"
    and "\<And>sd y us_num visit. map_of pt side = Some (JObj sd)
           \<Longrightarrow> get_surgery_label (JObj sd) = Some y
           \<Longrightarrow> map_of sd us_num = Some (JObj visit)
           \<Longrightarrow> Q (sample_key cfg study_id side us_num) y"
  shows "labels_ok Q s'"
  using assms(1)
proof (cases rule: process_side_cases)
  case unchanged
  then show ?thesis using assms(2) by simp
next
  case (visits sd surgery us)
  have q: "\<And>us_num visit. map_of sd us_num = Some (JObj visit)
           \<Longrightarrow> Q (sample_key cfg study_id side us_num) surgery"
    using assms(3) visits(2,3) by blast
  have step: "labels_ok Q t'"
    if "labels_ok Q t" "process_visit pp cfg study_id pt side sd surgery us_num t = (t', r')"
    for us_num t t' r'
    using process_visit_labels[OF that(2) that(1)] q by blast
  show ?thesis
    by (rule for_each_invariant[where P = "labels_ok Q", OF assms(2) _ visits(1)])
       (rule step)
qed

lemma process_patient_labels:
  assumes "process_patient pp cfg entry s = (s', r)" and "labels_ok Q s"
    and "\<And>pt side sd y us_num visit. snd entry = JObj pt
           \<Longrightarrow> map_of pt side = Some (JObj sd)
           \<Longrightarrow> get_surgery_label (JObj sd) = Some y
           \<Longrightarrow> map_of sd us_num = Some (JObj visit)
           \<Longrightarrow> Q (sample_key cfg (fst entry) side us_num) y"
  shows "labels_ok Q s'"
proof -
  obtain r0 where b: "patient_body pp cfg entry s = (s', r0)"
    using assms(1) by (rule process_patient_body)
  from b show ?thesis
  proof (cases rule: patient_body_cases)
    case unchanged
    then show ?thesis using assms(2) by simp
  next
    case (sides study_id pt sides)
    have q: "\<And>side sd y us_num visit. map_of pt side = Some (JObj sd)
           \<Longrightarrow> get_surgery_label (JObj sd) = Some y
           \<Longrightarrow> map_of sd us_num = Some (JObj visit)
           \<Longrightarrow> Q (sample_key cfg study_id side us_num) y"
      using assms(3) sides(2) by simp
    have step: "labels_ok Q t'"
      if "labels_ok Q t" "process_side pp cfg study_id pt side t = (t', r')"
      for side t t' r'
      using process_side_labels[OF that(2) that(1)] q by blast
    show ?thesis
      by (rule for_each_invariant[where P = "labels_ok Q", OF assms(2) _ sides(1)])
         (rule step)
  qed
qed

lemma find_filter_hd:
  "(case filter P l of [] \<Rightarrow> None | j # _ \<Rightarrow> Some (f j)) = map_option f (find P l)"
  by (induction l) auto

lemma get_surgery_label_spec:
  "get_surgery_label (JObj sd) = surgery_label_spec (map_of sd ''surgery'')"
  by (simp add: surgery_label_spec_def find_filter_hd split: option.splits json.splits)



section \<open>Properties of the ordered train/test split\<close>

lemma dict_set_fresh: "k \<notin> set (keys d) \<Longrightarrow> dict_set d k v = d @ [(k, v)]"
  by (induction d) (auto simp: keys_def)

lemma map_insort_key: "map f (insort_key f x xs) = insort (f x) (map f xs)"
  by (induction xs) auto

lemma map_sort_key: "map f (sort_key f xs) = sort (map f xs)"
  by (induction xs) (auto simp: map_insort_key)

lemma sorted_ids: "length BL_dates = length pt_ids \<Longrightarrow>
    map fst (sorted_pt_BL_dates pt_ids BL_dates) = sort pt_ids"
  by (simp add: sorted_pt_BL_dates_def map_sort_key)

lemma copy_patients_keys:
  assumes "\<forall>i \<in> set idxs. 0 \<le> i \<and> i < int (length ids)"
    and "set ids \<subseteq> set (keys in_dict)"
    and "distinct (keys out @ map (\<lambda>i. ids ! nat i) idxs)"
  shows "\<exists>out'. copy_patients in_dict ids idxs out = Inr out'
           \<and> keys out' = keys out @ map (\<lambda>i. ids ! nat i) idxs"
  using assms
proof (induction idxs arbitrary: out)
  case Nil
  then show ?case by simp
next
  case (Cons i idxs)
  have i: "0 \<le> i" "i < int (length ids)" using Cons.prems(1) by auto
  let ?k = "ids ! nat i"
  have idx: "py_index ids i = Inr ?k" using i by (simp add: py_index_def)
  have "?k \<in> set ids" using i by (simp add: nat_less_iff)
  then have "?k \<in> set (keys in_dict)" using Cons.prems(2) by blast
  then obtain v where v: "map_of in_dict ?k = Some v"
    by (cases "map_of in_dict ?k") (auto simp: keys_def map_of_eq_None_iff)
  have fresh: "?k \<notin> set (keys out)" using Cons.prems(3) by auto
  let ?out1 = "dict_set out ?k v"
  have k1: "keys ?out1 = keys out @ [?k]" using fresh by (simp add: dict_set_fresh keys_def)
  have "distinct (keys ?out1 @ map (\<lambda>i. ids ! nat i) idxs)"
    using Cons.prems(3) k1 by simp
  from Cons.IH[OF _ Cons.prems(2) this] Cons.prems(1)
  obtain out' where "copy_patients in_dict ids idxs ?out1 = Inr out'"
    "keys out' = keys ?out1 @ map (\<lambda>i. ids ! nat i) idxs" by auto
  then show ?case using idx v k1 by (simp add: dict_get_def)
qed

lemma map_nth_py_range:
  assumes "0 \<le> lo" and "hi \<le> int (length ids)"
  shows "map (\<lambda>i. ids ! nat i) (py_range lo hi) = take (nat (hi - lo)) (drop (nat lo) ids)"
proof (rule nth_equalityI)
  show "length (map (\<lambda>i. ids ! nat i) (py_range lo hi)) = length (take (nat (hi - lo)) (drop (nat lo) ids))"
    using assms by (auto simp: py_range_def)
next
  fix j assume "j < length (map (\<lambda>i. ids ! nat i) (py_range lo hi))"
  then have j: "j < nat (hi - lo)" by (simp add: py_range_def)
  then show "map (\<lambda>i. ids ! nat i) (py_range lo hi) ! j = take (nat (hi - lo)) (drop (nat lo) ids) ! j"
    using assms by (simp add: py_range_def nat_add_distrib add.commute)
qed

lemma py_range_bounds:
  assumes "0 \<le> lo" and "hi \<le> n"
  shows "\<forall>i \<in> set (py_range lo hi). 0 \<le> i \<and> i < n"
  using assms by (auto simp: py_range_def)

lemma collect_all_Inr:
  assumes "\<forall>x \<in> set xs. \<exists>y. f x = Inr y"
  shows "\<exists>ys. collect f xs = Inr ys \<and> length ys = length xs"
  using assms by (induction xs) auto

lemma bl_date_or_default_dict: "\<not> not_a_dict v \<Longrightarrow> \<exists>d. bl_date_or_default v = Inr d"
  by (cases v) (simp_all add: not_a_dict_def)

lemma distinct_keys_dict_pop: "distinct (keys d) \<Longrightarrow> distinct (keys (dict_pop d k))"
  by (simp add: keys_def dict_pop_def distinct_map_filter)

lemma nth_in_take_iff:
  assumes "distinct xs" and "i < length xs"
  shows "xs ! i \<in> set (take k xs) \<longleftrightarrow> i < k"
proof
  assume "xs ! i \<in> set (take k xs)"
  then obtain j where j: "j < length (take k xs)" "take k xs ! j = xs ! i"
    by (auto simp: in_set_conv_nth)
  then have "xs ! j = xs ! i" "j < length xs" "j < k" by auto
  then have "j = i" using assms nth_eq_iff_index_eq by blast
  then show "i < k" using \<open>j < k\<close> by simp
next
  assume "i < k"
  then show "xs ! i \<in> set (take k xs)"
    using assms(2) by (auto simp: in_set_conv_nth intro!: exI[of _ i])
qed

lemma nth_in_drop_iff:
  assumes "distinct xs" and "i < length xs"
  shows "xs ! i \<in> set (drop k xs) \<longleftrightarrow> k \<le> i"
proof
  assume "xs ! i \<in> set (drop k xs)"
  then obtain j where j: "j < length (drop k xs)" "drop k xs ! j = xs ! i"
    by (auto simp: in_set_conv_nth)
  then have "xs ! (k + j) = xs ! i" "k + j < length xs" by auto
  then have "k + j = i" using assms nth_eq_iff_index_eq by blast
  then show "k \<le> i" by simp
next
  assume "k \<le> i"
  then have "drop k xs ! (i - k) = xs ! i" "i - k < length (drop k xs)"
    using assms(2) by auto
  then show "xs ! i \<in> set (drop k xs)" by (metis nth_mem)
qed

lemma split_ordered_keys:
  assumes "distinct (keys in_dict)" and "length BL_dates = length in_dict"
    and "round_mul (int (length in_dict)) test_prop = Inr test_n"
    and "0 \<le> test_n" and "test_n \<le> int (length in_dict)"
  shows "\<exists>train_out test_out.
      split_ordered in_dict BL_dates test_prop = Inr (train_out, test_out)
      \<and> keys train_out = take (length in_dict - nat test_n) (sort (keys in_dict))
      \<and> keys test_out = drop (length in_dict - nat test_n + 1) (sort (keys in_dict))"
proof -
  let ?ids = "sort (keys in_dict)"
  let ?n = "int (length (keys in_dict))"
  have len: "length (keys in_dict) = length in_dict" by (simp add: keys_def)
  have ids: "map fst (sorted_pt_BL_dates (keys in_dict) BL_dates) = ?ids"
    using assms(2) by (simp add: sorted_ids len)
  have tn: "round_mul ?n test_prop = Inr test_n" using assms(3) len by simp
  have dist: "distinct ?ids" using assms(1) by simp
  have sub: "set ?ids \<subseteq> set (keys in_dict)" by simp
  have lenids: "length ?ids = length in_dict" by (simp add: len)
  have kn: "keys ([] :: (string, json) dict) = []" by (simp add: keys_def)
  have tr_eq: "map (\<lambda>i. ?ids ! nat i) (py_range 0 (?n - test_n)) = take (length in_dict - nat test_n) ?ids"
    using assms(4,5) map_nth_py_range[of 0 "?n - test_n" ?ids]
    by (simp add: len nat_diff_distrib)
  have te_eq: "map (\<lambda>i. ?ids ! nat i) (py_range (?n - test_n + 1) ?n) = drop (length in_dict - nat test_n + 1) ?ids"
  proof -
    have "map (\<lambda>i. ?ids ! nat i) (py_range (?n - test_n + 1) ?n)
        = take (nat (?n - (?n - test_n + 1))) (drop (nat (?n - test_n + 1)) ?ids)"
      using assms(4,5) by (intro map_nth_py_range) (simp_all add: len)
    moreover have "nat (?n - test_n + 1) = length in_dict - nat test_n + 1"
      using assms(4,5) by (simp add: len nat_diff_distrib nat_add_distrib)
    moreover have "length (drop (length in_dict - nat test_n + 1) ?ids) \<le> nat (?n - (?n - test_n + 1))"
      using assms(4,5) by (simp add: len)
    ultimately show ?thesis by simp
  qed
  obtain train_out where tr: "copy_patients in_dict ?ids (py_range 0 (?n - test_n)) [] = Inr train_out"
    "keys train_out = take (length in_dict - nat test_n) ?ids"
  proof -
    have "\<exists>out'. copy_patients in_dict ?ids (py_range 0 (?n - test_n)) [] = Inr out'
           \<and> keys out' = keys ([] :: (string, json) dict) @ map (\<lambda>i. ?ids ! nat i) (py_range 0 (?n - test_n))"
    proof (rule copy_patients_keys)
      show "set ?ids \<subseteq> set (keys in_dict)" by (rule sub)
      show "\<forall>i\<in>set (py_range 0 (?n - test_n)). 0 \<le> i \<and> i < int (length ?ids)"
        using assms(4) by (intro py_range_bounds) (simp_all add: len)
      show "distinct (keys ([] :: (string, json) dict) @ map (\<lambda>i. ?ids ! nat i) (py_range 0 (?n - test_n)))"
        using dist by (simp add: tr_eq kn)
    qed
    then show ?thesis using that by (auto simp: tr_eq kn)
  qed
  obtain test_out where te: "copy_patients in_dict ?ids (py_range (?n - test_n + 1) ?n) [] = Inr test_out"
    "keys test_out = drop (length in_dict - nat test_n + 1) ?ids"
  proof -
    have "\<exists>out'. copy_patients in_dict ?ids (py_range (?n - test_n + 1) ?n) [] = Inr out'
           \<and> keys out' = keys ([] :: (string, json) dict) @ map (\<lambda>i. ?ids ! nat i) (py_range (?n - test_n + 1) ?n)"
    proof (rule copy_patients_keys)
      show "set ?ids \<subseteq> set (keys in_dict)" by (rule sub)
      show "\<forall>i\<in>set (py_range (?n - test_n + 1) ?n). 0 \<le> i \<and> i < int (length ?ids)"
        using assms(5) by (intro py_range_bounds) (simp_all add: len)
      show "distinct (keys ([] :: (string, json) dict) @ map (\<lambda>i. ?ids ! nat i) (py_range (?n - test_n + 1) ?n))"
        using dist by (simp add: te_eq kn)
    qed
    then show ?thesis using that by (auto simp: te_eq kn)
  qed
  show ?thesis
    unfolding split_ordered_def Let_def ids tn
    using tr te by simp
qed


text \<open>
  The product is rounded twice, to a float and then to an integer: \<^verbatim>\<open>round(5 * 0.1)\<close> is 0 and
  \<^verbatim>\<open>round(45 * 0.7)\<close> is 31, where the exact products \<open>1 / 2\<close> and \<open>63 / 2\<close> are ties.
\<close>

lemma round_mul_examples:
  "to_double (2 / 10) = 3602879701896397 / 18014398509481984"
  "round_mul 5 (to_double (1 / 10)) = Inr 0"
  "round_mul 45 (to_double (7 / 10)) = Inr 31"
  "round_mul 10 (to_double (2 / 10)) = Inr 2"
  "floor_mul 10 (to_double (8 / 10)) = Inr 8"
  by code_simp+
section \<open>Properties of the Image Preprocessor\<close>

lemma preprocess_bounces:
  assumes "bounces w img_file"
  shows "preprocess render ep w img_file = None"
proof (cases "preprocess render ep w img_file")
  case None
  then show ?thesis .
next
  case (Some y)
  have "\<not> bounces w img_file"
  proof (rule preprocess.raw_induct[where P = "\<lambda>render ep w img_file y. \<not> bounces w img_file", OF _ Some])
    fix f :: "(image \<Rightarrow> image) \<Rightarrow> entry_point \<Rightarrow> file_system \<Rightarrow> string
        \<Rightarrow> ((py_error + image) \<times> file_system) option"
      and render ep w img_file y
    assume ih: "\<And>g e v p z. f g e v p = Some z \<Longrightarrow> \<not> bounces v p"
    assume body: "(if ep = ProcessInputImage
      then case image_open w img_file of Inl e \<Rightarrow> Some (Inl e, w)
           | Inr fit_img \<Rightarrow>
               if fst (shape fit_img) \<noteq> 256 \<or> snd (shape fit_img) \<noteq> 256
               then f render SpecialST w img_file
               else Some (Inr fit_img, w)
      else if py_in_str ''preprocessed'' img_file
           then f render ProcessInputImage w img_file
           else Some (special_cached render w img_file)) = Some y"
    show "\<not> bounces w img_file"
    proof
      assume b: "bounces w img_file"
      show False
      proof (cases "ep = ProcessInputImage")
        case True
        with b body have "f render SpecialST w img_file = Some y"
          by (auto simp: bounces_def split: sum.splits if_splits)
        then show False using ih b by blast
      next
        case False
        with b body have "f render ProcessInputImage w img_file = Some y"
          by (auto simp: bounces_def)
        then show False using ih b by blast
      qed
    qed
  qed
  then show ?thesis using assms by simp
qed

lemma preprocess_returns:
  assumes "\<not> bounces w img_file"
  shows "\<exists>r. process_input_image render w img_file = Some r"
    and "\<exists>r. special_ST_preprocessing render w img_file = Some r"
proof -
  have sp: "\<exists>r. preprocess render SpecialST w img_file = Some r"
    if "\<not> py_in_str ''preprocessed'' img_file"
    using that by (subst preprocess.simps) simp
  have pr: "\<exists>r. preprocess render ProcessInputImage w img_file = Some r"
  proof (cases "image_open w img_file")
    case (Inl e)
    then show ?thesis by (subst preprocess.simps) simp
  next
    case (Inr fit_img)
    show ?thesis
    proof (cases "fst (shape fit_img) \<noteq> 256 \<or> snd (shape fit_img) \<noteq> 256")
      case True
      then have "\<not> py_in_str ''preprocessed'' img_file"
        using assms Inr by (auto simp: bounces_def)
      then show ?thesis using sp Inr True by (subst preprocess.simps) simp
    next
      case False
      then show ?thesis using Inr by (subst preprocess.simps) simp
    qed
  qed
  show "\<exists>r. process_input_image render w img_file = Some r"
    using pr by (simp add: process_input_image_def)
  show "\<exists>r. special_ST_preprocessing render w img_file = Some r"
  proof (cases "py_in_str ''preprocessed'' img_file")
    case True
    then show ?thesis using pr
      by (subst special_ST_preprocessing_def, subst preprocess.simps) simp
  next
    case False
    then show ?thesis using sp by (simp add: special_ST_preprocessing_def)
  qed
qed

section \<open>Properties of the Data Module\<close>

lemma sub_dict_present:
  assumes "set ks \<subseteq> set (keys d)"
  shows "\<exists>out'. sub_dict d ks out = Inr out'
           \<and> set (keys out') = set (keys out) \<union> set ks
           \<and> (\<forall>k. map_of out' k = (if k \<in> set ks then map_of d k else map_of out k))"
  using assms
proof (induction ks arbitrary: out)
  case Nil
  then show ?case by simp
next
  case (Cons k ks)
  then obtain v where v: "map_of d k = Some v"
    by (cases "map_of d k") (auto simp: keys_def map_of_eq_None_iff)
  from Cons.IH[of "dict_set out k v"] Cons.prems
  obtain out' where o: "sub_dict d ks (dict_set out k v) = Inr out'"
    "set (keys out') = set (keys (dict_set out k v)) \<union> set ks"
    "\<forall>j. map_of out' j = (if j \<in> set ks then map_of d j else map_of (dict_set out k v) j)"
    by auto
  have "sub_dict d (k # ks) out = Inr out'" using v o(1) by (simp add: dict_get_def)
  moreover have "set (keys out') = set (keys out) \<union> set (k # ks)"
    using o(2) by (auto simp: set_keys_dict_set)
  moreover have "\<forall>j. map_of out' j = (if j \<in> set (k # ks) then map_of d j else map_of out j)"
    using o(3) v by (auto simp: map_of_dict_set)
  ultimately show ?case by blast
qed

lemma select_dicts_present:
  assumes "train_img_dict dm = Some imgs" and "train_label_dict dm = Some labels"
    and "train_cov_dict dm = Some covs"
    and "set ids \<subseteq> set (keys imgs) \<inter> set (keys labels) \<inter> set (keys covs)"
  shows "\<exists>si sl sc. select_dicts dm ids = Inr (si, sl, sc, ids)
     \<and> set (keys si) = set ids \<and> set (keys sl) = set ids \<and> set (keys sc) = set ids
     \<and> (\<forall>k \<in> set ids. map_of si k = map_of imgs k \<and> map_of sl k = map_of labels k
            \<and> map_of sc k = map_of covs k)"
proof -
  obtain si where si: "sub_dict imgs ids [] = Inr si" "set (keys si) = set ids"
    "\<forall>k \<in> set ids. map_of si k = map_of imgs k"
    using sub_dict_present[of ids imgs "[]"] assms(4) by (auto simp: keys_def)
  obtain sl where sl: "sub_dict labels ids [] = Inr sl" "set (keys sl) = set ids"
    "\<forall>k \<in> set ids. map_of sl k = map_of labels k"
    using sub_dict_present[of ids labels "[]"] assms(4) by (auto simp: keys_def)
  obtain sc where sc: "sub_dict covs ids [] = Inr sc" "set (keys sc) = set ids"
    "\<forall>k \<in> set ids. map_of sc k = map_of covs k"
    using sub_dict_present[of ids covs "[]"] assms(4) by (auto simp: keys_def)
  have "select_dicts dm ids = Inr (si, sl, sc, ids)"
    using assms(1-3) si(1) sl(1) sc(1) by (simp add: select_dicts_def)
  then show ?thesis using si sl sc by blast
qed

lemma np_take_length: "np_take arr idx = Inr xs \<Longrightarrow> length xs = length idx"
  unfolding np_take_def
  by (induction idx arbitrary: xs) (auto split: sum.splits)

section \<open>Claims about the Record Extractor\<close>

text \<open>
  C1. Atomic insertion: whenever \<^verbatim>\<open>get_data_dicts\<close> returns, for any record and any
  configuration, the image dictionary, the label dictionary, the covariate dictionary and
  the key list have the same set of keys. The image layer is a parameter; it is assumed
  not to raise the two exceptions that the patient-level \<^verbatim>\<open>try\<close> swallows.
\<close>

theorem get_data_dicts_same_keys:
  assumes "quiet pp"
    and "get_data_dicts pp cfg in_dict w = Inr ((imgs, labels, covs, ids), w')"
  shows "set (keys imgs) = set (keys labels) \<and> set (keys labels) = set (keys covs)
     \<and> set (keys covs) = set ids"
proof -
  let ?s0 = "\<lparr>world = w, img_dict = [], label_dict = [], cov_dict = []\<rparr>"
  obtain s where run: "for_each (process_patient pp cfg) in_dict ?s0 = (s, None)"
    and out: "imgs = img_dict s" "labels = label_dict s" "covs = cov_dict s"
      "ids = keys (img_dict s)"
    using assms(2) by (rule get_data_dicts_state)
  have "same_keys (seq cfg) ?s0" by (simp add: same_keys_def keys_def)
  then have "same_keys (seq cfg) s"
    by (rule for_each_invariant_caught[where P = "same_keys (seq cfg)", OF _ _ run])
       (auto simp: caught_def intro: process_patient_same_keys[OF _ assms(1)])
  then show ?thesis using out by (simp add: same_keys_def)
qed

theorem get_data_dicts_same_keys_witness:
  "quiet ex_preprocessors
   \<and> get_data_dicts ex_preprocessors ex_config ex_record [] =
       Inr (([(''P1_Left'', ImgSeq [([[11]], [[11]])])],
             [(''P1_Left'', 1)],
             [(''P1_Left'', CovDefaultDict [(''US_machine'', JList [JStr ''X'']),
                                            (''Sex'', JList [JInt 1]),
                                            (''Age_wks'', JList [JInt 10])])],
             [''P1_Left'']),
            [''d/a_sag.png'', ''d/a_trv.png''])
   \<and> set (keys [(''P1_Left'', ImgSeq [([[11]], [[11 :: 8 word]])])]) = set [''P1_Left'']"
proof -
  have q: "quiet ex_preprocessors"
    by (simp add: quiet_def ex_preprocessors_def)
  have e: "get_data_dicts ex_preprocessors ex_config ex_record [] =
       Inr (([(''P1_Left'', ImgSeq [([[11]], [[11]])])],
             [(''P1_Left'', 1)],
             [(''P1_Left'', CovDefaultDict [(''US_machine'', JList [JStr ''X'']),
                                            (''Sex'', JList [JInt 1]),
                                            (''Age_wks'', JList [JInt 10])])],
             [''P1_Left'']),
            [''d/a_sag.png'', ''d/a_trv.png''])"
    by code_simp
  show ?thesis using get_data_dicts_same_keys[OF q e] q e by simp
qed

text \<open>
  C6. A label that \<^verbatim>\<open>get_data_dicts\<close> stores under a key is 0 or 1, and the key is the key
  of a visit of a side of a patient of the record whose \<^verbatim>\<open>surgery\<close> field resolves to that
  label: the bare integer, or the first integer element of a list. So a key is admitted
  only for a side whose resolved label is 0 or 1, and it carries the label of its own side.
\<close>

theorem get_data_dicts_labels:
  assumes "get_data_dicts pp cfg in_dict w = Inr ((imgs, labels, covs, ids), w')"
    and "(k, y) \<in> set labels"
  shows "(y = 0 \<or> y = 1)
     \<and> (\<exists>study_id pt side sd us_num visit.
            (study_id, JObj pt) \<in> set in_dict
          \<and> map_of pt side = Some (JObj sd)
          \<and> map_of sd us_num = Some (JObj visit)
          \<and> k = sample_key cfg study_id side us_num
          \<and> surgery_label_spec (map_of sd ''surgery'') = Some y)"
proof -
  let ?s0 = "\<lparr>world = w, img_dict = [], label_dict = [], cov_dict = []\<rparr>"
  let ?Q = "\<lambda>k y. \<exists>study_id pt side sd us_num visit.
            (study_id, JObj pt) \<in> set in_dict
          \<and> map_of pt side = Some (JObj sd)
          \<and> map_of sd us_num = Some (JObj visit)
          \<and> k = sample_key cfg study_id side us_num
          \<and> surgery_label_spec (map_of sd ''surgery'') = Some y"
  obtain s where run: "for_each (process_patient pp cfg) in_dict ?s0 = (s, None)"
    and out: "labels = label_dict s"
    using assms(1) by (rule get_data_dicts_state)
  have step: "labels_ok ?Q t'"
    if "entry \<in> set in_dict" "labels_ok ?Q t" "process_patient pp cfg entry t = (t', r)"
    for entry t t' r
  proof (rule process_patient_labels[OF that(3) that(2)])
    fix pt side sd y us_num visit
    assume a: "snd entry = JObj pt" "map_of pt side = Some (JObj sd)"
      "get_surgery_label (JObj sd) = Some y" "map_of sd us_num = Some (JObj visit)"
    have "(fst entry, JObj pt) \<in> set in_dict" using that(1) a(1) by (metis prod.collapse)
    moreover have "surgery_label_spec (map_of sd ''surgery'') = Some y"
      using a(3) by (simp only: get_surgery_label_spec)
    ultimately show "?Q (sample_key cfg (fst entry) side us_num) y"
      using a(2,4) by blast
  qed
  have "labels_ok ?Q ?s0" by (simp add: labels_ok_def)
  then have "labels_ok ?Q s"
    by (rule for_each_invariant[where P = "labels_ok ?Q", OF _ _ run]) (rule step)
  then have "(y = 0 \<or> y = 1) \<and> ?Q k y"
    using out assms(2) unfolding labels_ok_def by fastforce
  then show ?thesis .
qed

theorem get_data_dicts_labels_witness:
  "get_data_dicts ex_preprocessors ex_config_visits ex_record_sides [] =
       Inr (([(''P1_Left_1'', ImgStack [[11]] [[11]]),
              (''P1_Right_2'', ImgStack [[11]] [[11]])],
             [(''P1_Left_1'', 1), (''P1_Right_2'', 0)],
             [(''P1_Left_1'', CovDict [(''US_machine'', JStr ''X''), (''Sex'', JInt 1),
                                       (''Age_wks'', JInt 10)]),
              (''P1_Right_2'', CovDict [(''US_machine'', JStr ''X''), (''Sex'', JInt 1),
                                        (''Age_wks'', JInt 10)])],
             [''P1_Left_1'', ''P1_Right_2'']),
            [''d/a_sag.png'', ''d/a_trv.png'', ''d/b_sag.png'', ''d/b_trv.png''])
   \<and> (''P1_Right_2'', 0) \<in> set [(''P1_Left_1'', 1 :: int), (''P1_Right_2'', 0)]
   \<and> (\<exists>study_id pt side sd us_num visit.
            (study_id, JObj pt) \<in> set ex_record_sides
          \<and> map_of pt side = Some (JObj sd)
          \<and> map_of sd us_num = Some (JObj visit)
          \<and> ''P1_Right_2'' = sample_key ex_config_visits study_id side us_num
          \<and> surgery_label_spec (map_of sd ''surgery'') = Some 0)"
proof -
  have e: "get_data_dicts ex_preprocessors ex_config_visits ex_record_sides [] =
       Inr (([(''P1_Left_1'', ImgStack [[11]] [[11]]),
              (''P1_Right_2'', ImgStack [[11]] [[11]])],
             [(''P1_Left_1'', 1), (''P1_Right_2'', 0)],
             [(''P1_Left_1'', CovDict [(''US_machine'', JStr ''X''), (''Sex'', JInt 1),
                                       (''Age_wks'', JInt 10)]),
              (''P1_Right_2'', CovDict [(''US_machine'', JStr ''X''), (''Sex'', JInt 1),
                                        (''Age_wks'', JInt 10)])],
             [''P1_Left_1'', ''P1_Right_2'']),
            [''d/a_sag.png'', ''d/a_trv.png'', ''d/b_sag.png'', ''d/b_trv.png''])"
    by code_simp
  have m: "(''P1_Right_2'', 0) \<in> set [(''P1_Left_1'', 1 :: int), (''P1_Right_2'', 0)]"
    by simp
  from get_data_dicts_labels[OF e m] have
    "\<exists>study_id pt side sd us_num visit.
            (study_id, JObj pt) \<in> set ex_record_sides
          \<and> map_of pt side = Some (JObj sd)
          \<and> map_of sd us_num = Some (JObj visit)
          \<and> ''P1_Right_2'' = sample_key ex_config_visits study_id side us_num
          \<and> surgery_label_spec (map_of sd ''surgery'') = Some 0"
    by (rule conjunct2)
  with e m show ?thesis by (intro conjI)
qed



text \<open>
  C4 does not hold on the code. With \<^verbatim>\<open>last_visit_only\<close> the loop runs over the characters
  of the last visit number. For a side with the visits \<^verbatim>\<open>"1"\<close> and \<^verbatim>\<open>"11"\<close> the last visit
  \<^verbatim>\<open>"11"\<close> is never read: visit \<^verbatim>\<open>"1"\<close> is processed twice, and the stored sample is visit
  \<^verbatim>\<open>"1"\<close> (age 10, the images of the first visit).
\<close>

theorem get_data_dicts_last_visit_only_reads_characters:
  "get_data_dicts ex_preprocessors (ex_config\<lparr>last_visit_only := True, seq := False\<rparr>)
     ex_record_two_visits [] =
   Inr (([(''P1_Left_1'', ImgStack [[15]] [[15]])],
         [(''P1_Left_1'', 1)],
         [(''P1_Left_1'', CovDict [(''US_machine'', JStr ''X''), (''Sex'', JInt 1),
                                   (''Age_wks'', JInt 10)])],
         [''P1_Left_1'']),
        [''d/first_sag.png'', ''d/first_trv.png'', ''d/first_sag.png'', ''d/first_trv.png''])"
  by code_simp

section \<open>Claims about the train/test split\<close>

text \<open>
  C2 does not hold on the code. \<^verbatim>\<open>sorted(zip(pt_ids, BL_dates))\<close> orders the patients by
  their ID, not by their baseline date. Of ten patients whose dates descend as their IDs
  ascend, the test set is P9, the patient with the earliest date, and the training set
  holds the eight latest patients; the tail of the date order would be P1 and P0.
\<close>

theorem load_dataset_ordered_sorts_by_id:
  "load_dataset ex_library [] ''in.json'' (to_double (2 / 10)) ''d/'' True False =
   Inr ([(''P0'', JObj [(''BL_date'', JStr ''2019-01-01'')]),
         (''P1'', JObj [(''BL_date'', JStr ''2018-01-01'')]),
         (''P2'', JObj [(''BL_date'', JStr ''2017-01-01'')]),
         (''P3'', JObj [(''BL_date'', JStr ''2016-01-01'')]),
         (''P4'', JObj [(''BL_date'', JStr ''2015-01-01'')]),
         (''P5'', JObj [(''BL_date'', JStr ''2014-01-01'')]),
         (''P6'', JObj [(''BL_date'', JStr ''2013-01-01'')]),
         (''P7'', JObj [(''BL_date'', JStr ''2012-01-01'')])],
        Some [(''P9'', JObj [(''BL_date'', JStr ''2010-01-01'')])])"
  by code_simp

text \<open>
  C5. In the ordered mode, with \<open>n\<close> patients and \<open>test_n = round(n * test_prop)\<close> (the product
  taken in floating point, as Python takes it) between 0 and \<open>n\<close>, the training set is the
  first \<open>n - test_n\<close> patients of the sorted order, the test set is what follows position
  \<open>n - test_n\<close>, and the patient at a position of the sorted order is in neither set exactly
  when the position is \<open>n - test_n\<close>; for \<open>test_n = 0\<close> there is no such position and nobody is
  dropped. For ten patients and \<open>test_prop = 0.2\<close> this is 8 train patients, 1 test patient,
  and P8 dropped.
\<close>

theorem load_dataset_ordered_drops_boundary:
  assumes "json_load lib w (ddir @ json_infile) = Inr loaded"
    and "in_dict = dict_pop loaded ''SU2bae8dc''"
    and "distinct (keys loaded)"
    and "\<forall>v \<in> set (map snd in_dict). \<not> not_a_dict v"
    and "round_mul (int (length in_dict)) test_prop = Inr test_n"
    and "0 \<le> test_n" and "test_n \<le> int (length in_dict)"
  shows "\<exists>train_out test_out.
      load_dataset lib w json_infile test_prop ddir True False = Inr (train_out, Some test_out)
      \<and> keys train_out = take (length in_dict - nat test_n) (sort (keys in_dict))
      \<and> keys test_out = drop (length in_dict - nat test_n + 1) (sort (keys in_dict))
      \<and> (\<forall>i < length in_dict.
            (sort (keys in_dict) ! i \<notin> set (keys train_out) \<union> set (keys test_out))
            = (i = length in_dict - nat test_n))"
proof -
  obtain BL_dates where bl: "collect bl_date_or_default (map snd in_dict) = Inr BL_dates"
    "length BL_dates = length in_dict"
    using collect_all_Inr[of "map snd in_dict" bl_date_or_default] assms(4)
      bl_date_or_default_dict by auto
  have dist: "distinct (keys in_dict)"
    using assms(2,3) by (simp add: distinct_keys_dict_pop)
  obtain train_out test_out where sp:
    "split_ordered in_dict BL_dates test_prop = Inr (train_out, test_out)"
    "keys train_out = take (length in_dict - nat test_n) (sort (keys in_dict))"
    "keys test_out = drop (length in_dict - nat test_n + 1) (sort (keys in_dict))"
    using split_ordered_keys[OF dist bl(2) assms(5,6,7)] by blast
  have ld: "load_dataset lib w json_infile test_prop ddir True False = Inr (train_out, Some test_out)"
    using assms(1) bl(1) sp(1) by (simp add: load_dataset_def Let_def assms(2)[symmetric])
  have ds: "distinct (sort (keys in_dict))" using dist by simp
  have ln: "length (sort (keys in_dict)) = length in_dict" by (simp add: keys_def)
  have "(sort (keys in_dict) ! i \<notin> set (keys train_out) \<union> set (keys test_out))
            = (i = length in_dict - nat test_n)" if "i < length in_dict" for i
    using that nth_in_take_iff[OF ds, of i] nth_in_drop_iff[OF ds, of i] sp(2,3) ln
    by auto
  then show ?thesis using ld sp(2,3) by blast
qed

theorem load_dataset_ordered_drops_boundary_witness:
  "json_load ex_library [] (''d/'' @ ''in.json'') = Inr ex_patients
   \<and> ex_patients = dict_pop ex_patients ''SU2bae8dc''
   \<and> distinct (keys ex_patients)
   \<and> list_all (\<lambda>v. \<not> not_a_dict v) (map snd ex_patients)
   \<and> round_mul (int (length ex_patients)) (to_double (2 / 10)) = Inr 2
   \<and> (\<exists>train_out test_out.
        load_dataset ex_library [] ''in.json'' (to_double (2 / 10)) ''d/'' True False
          = Inr (train_out, Some test_out)
        \<and> keys train_out = [''P0'', ''P1'', ''P2'', ''P3'', ''P4'', ''P5'', ''P6'', ''P7'']
        \<and> keys test_out = [''P9'']
        \<and> ''P8'' \<notin> set (keys train_out) \<union> set (keys test_out))"
proof -
  have a1: "json_load ex_library [] (''d/'' @ ''in.json'') = Inr ex_patients"
    by (simp add: ex_library_def)
  have a2: "ex_patients = dict_pop ex_patients ''SU2bae8dc''" by code_simp
  have a3: "distinct (keys ex_patients)" by code_simp
  have a4: "\<forall>v \<in> set (map snd ex_patients). \<not> not_a_dict v" by code_simp
  have a5: "round_mul (int (length ex_patients)) (to_double (2 / 10)) = Inr 2" by code_simp
  have a6: "(0 :: int) \<le> 2" "(2 :: int) \<le> int (length ex_patients)" by code_simp+
  have s: "sort (keys ex_patients) = [''P0'', ''P1'', ''P2'', ''P3'', ''P4'', ''P5'', ''P6'', ''P7'', ''P8'', ''P9'']"
    by code_simp
  have l: "length ex_patients = 10" by code_simp
  from load_dataset_ordered_drops_boundary[OF a1 a2 a3 a4 a5 a6]
  obtain train_out test_out where r:
    "load_dataset ex_library [] ''in.json'' (to_double (2 / 10)) ''d/'' True False = Inr (train_out, Some test_out)"
    "keys train_out = take (length ex_patients - nat 2) (sort (keys ex_patients))"
    "keys test_out = drop (length ex_patients - nat 2 + 1) (sort (keys ex_patients))"
    by blast
  have "keys train_out = [''P0'', ''P1'', ''P2'', ''P3'', ''P4'', ''P5'', ''P6'', ''P7'']"
    "keys test_out = [''P9'']"
    using r(2,3) by (simp_all add: s l)
  moreover have "list_all (\<lambda>v. \<not> not_a_dict v) (map snd ex_patients)" by code_simp
  ultimately show ?thesis using a1 a2 a3 a5 r(1) by auto
qed

section \<open>Claims about the Image Preprocessor\<close>

text \<open>
  C9 does not hold on the code. For a path that contains \<^verbatim>\<open>"preprocessed"\<close> and holds an
  image that is not 256 by 256, \<^verbatim>\<open>process_input_image\<close> calls \<^verbatim>\<open>special_ST_preprocessing\<close>,
  which calls \<^verbatim>\<open>process_input_image\<close> on the same path and the same files: the recursion
  never bottoms out (lemma \<open>preprocess_bounces\<close>; on every other path both functions
  return, lemma \<open>preprocess_returns\<close>).
\<close>

theorem process_input_image_never_returns:
  "process_input_image (\<lambda>im. im) ex_file_system ''d/preprocessed/a.png'' = None"
proof -
  have "bounces ex_file_system ''d/preprocessed/a.png''"
    by (simp add: bounces_def ex_file_system_def image_open_def shape_def)
  then show ?thesis
    unfolding process_input_image_def by (rule preprocess_bounces)
qed

section \<open>Claims about the Data Module and the Dataset Adapter\<close>

text \<open>
  C10. Let the selected fold be \<open>(train_idx, val_idx)\<close> and \<open>val_ids\<close> the keys at the
  indices \<open>val_idx\<close>. If \<open>val_idx\<close> is empty, \<^verbatim>\<open>val_dataloader\<close> returns \<^verbatim>\<open>None\<close> and leaves
  the module as it is. Otherwise, the keys being present in the three training
  dictionaries, it returns a loader whose dataset has exactly \<open>val_ids\<close> as its key list,
  and dictionaries with these keys and the training values. When validation is not
  requested, the fold list that \<^verbatim>\<open>setup\<close> builds is \<^verbatim>\<open>[(range(n), [])]\<close>.
\<close>

theorem val_dataloader_none_or_exact:
  assumes "train_val_idx_generator dm = Some gen"
    and "py_index gen (fold dm) = Inr (train_idx, val_idx)"
    and "train_study_ids dm = Some ids"
    and "np_take ids val_idx = Inr val_ids"
  shows "(val_idx = [] \<longrightarrow> val_dataloader dm = Inr (None, dm))
     \<and> (val_idx \<noteq> [] \<longrightarrow> train_img_dict dm = Some imgs \<longrightarrow> train_label_dict dm = Some labels
          \<longrightarrow> train_cov_dict dm = Some covs
          \<longrightarrow> set val_ids \<subseteq> set (keys imgs) \<inter> set (keys labels) \<inter> set (keys covs)
          \<longrightarrow> (\<exists>loader dm'. val_dataloader dm = Inr (Some loader, dm')
                 \<and> ds_study_ids (loader_dataset loader) = val_ids
                 \<and> set (keys (ds_image_dict (loader_dataset loader))) = set val_ids
                 \<and> set (keys (ds_label_dict (loader_dataset loader))) = set val_ids
                 \<and> set (keys (ds_cov_dict (loader_dataset loader))) = set val_ids
                 \<and> (\<forall>k \<in> set val_ids.
                       map_of (ds_image_dict (loader_dataset loader)) k = map_of imgs k
                     \<and> map_of (ds_label_dict (loader_dataset loader)) k = map_of labels k
                     \<and> map_of (ds_cov_dict (loader_dataset loader)) k = map_of covs k)))
     \<and> (\<not> arg_include_validation a \<longrightarrow>
          train_val_ids_generator lib a (imgs', labels', covs', ids')
            = Inr [(py_range 0 (int (length ids')), [])])"
proof (intro conjI impI)
  have fi: "fold_indices dm = Inr (train_idx, val_idx)"
    using assms(1,2) by (simp add: fold_indices_def)
  have len: "length val_ids = length val_idx" using assms(4) by (rule np_take_length)
  show "val_dataloader dm = Inr (None, dm)" if "val_idx = []"
    using that fi assms(3,4) len by (simp add: val_dataloader_def)
  show "\<exists>loader dm'. val_dataloader dm = Inr (Some loader, dm')
        \<and> ds_study_ids (loader_dataset loader) = val_ids
        \<and> set (keys (ds_image_dict (loader_dataset loader))) = set val_ids
        \<and> set (keys (ds_label_dict (loader_dataset loader))) = set val_ids
        \<and> set (keys (ds_cov_dict (loader_dataset loader))) = set val_ids
        \<and> (\<forall>k \<in> set val_ids.
              map_of (ds_image_dict (loader_dataset loader)) k = map_of imgs k
            \<and> map_of (ds_label_dict (loader_dataset loader)) k = map_of labels k
            \<and> map_of (ds_cov_dict (loader_dataset loader)) k = map_of covs k)"
    if ne: "val_idx \<noteq> []" and d: "train_img_dict dm = Some imgs"
      "train_label_dict dm = Some labels" "train_cov_dict dm = Some covs"
      and sub: "set val_ids \<subseteq> set (keys imgs) \<inter> set (keys labels) \<inter> set (keys covs)"
  proof -
    obtain si sl sc where sel: "select_dicts dm val_ids = Inr (si, sl, sc, val_ids)"
      "set (keys si) = set val_ids" "set (keys sl) = set val_ids" "set (keys sc) = set val_ids"
      "\<forall>k \<in> set val_ids. map_of si k = map_of imgs k \<and> map_of sl k = map_of labels k
            \<and> map_of sc k = map_of covs k"
      using select_dicts_present[OF d sub] by blast
    have nz: "length val_ids \<noteq> 0" using ne len by simp
    let ?ds = "KidneyDataset (si, sl, sc, val_ids) (arg_include_cov (dm_args dm))"
    have "val_dataloader dm = Inr (Some \<lparr>loader_dataset = ?ds,
             loader_params = val_dataloader_params dm\<rparr>,
           if debug dm then dm\<lparr>val_dicts := Some (si, sl, sc, val_ids)\<rparr> else dm)"
      using fi assms(3,4) nz sel(1) by (simp add: val_dataloader_def Let_def)
    then show ?thesis using sel(2-5) by (simp add: KidneyDataset_def)
  qed
  show "train_val_ids_generator lib a (imgs', labels', covs', ids')
            = Inr [(py_range 0 (int (length ids')), [])]"
    if "\<not> arg_include_validation a"
    using that by (simp add: train_val_ids_generator_def)
qed

theorem val_dataloader_none_or_exact_witness:
  "train_val_idx_generator ex_data_module = Some [([0], [])]
   \<and> py_index [([0 :: int], [] :: int list)] (fold ex_data_module) = Inr ([0], [])
   \<and> train_study_ids ex_data_module = Some [''P1_Left'']
   \<and> np_take [''P1_Left''] [] = Inr []
   \<and> val_dataloader ex_data_module = Inr (None, ex_data_module)
   \<and> np_take [''P1_Left''] [0] = Inr [''P1_Left'']
   \<and> (\<exists>loader dm'.
         val_dataloader (ex_data_module\<lparr>train_val_idx_generator := Some [([], [0])]\<rparr>)
           = Inr (Some loader, dm')
         \<and> ds_study_ids (loader_dataset loader) = [''P1_Left''])
   \<and> train_val_ids_generator ex_library_record ex_args ([], [], [], [''P1_Left''])
        = Inr [([0], [])]"
proof -
  let ?dm = "ex_data_module\<lparr>train_val_idx_generator := Some [([], [0])]\<rparr>"
  have g: "train_val_idx_generator ex_data_module = Some [([0], [])]" by code_simp
  have f: "py_index [([0 :: int], [] :: int list)] (fold ex_data_module) = Inr ([0], [])"
    by code_simp
  have i: "train_study_ids ex_data_module = Some [''P1_Left'']" by code_simp
  have t0: "np_take [''P1_Left''] [] = Inr []" by code_simp
  have e: "val_dataloader ex_data_module = Inr (None, ex_data_module)"
    using val_dataloader_none_or_exact[OF g f i t0, THEN conjunct1] by simp
  have g': "train_val_idx_generator ?dm = Some [([], [0])]" by simp
  have f': "py_index [([] :: int list, [0 :: int])] (fold ?dm) = Inr ([], [0])" by code_simp
  have i': "train_study_ids ?dm = Some [''P1_Left'']" using i by simp
  have t1: "np_take [''P1_Left''] [0] = Inr [''P1_Left'']" by code_simp
  have d: "train_img_dict ?dm = Some [(''P1_Left'', ImgSeq [([[11]], [[11]])])]"
    "train_label_dict ?dm = Some [(''P1_Left'', 1)]"
    "train_cov_dict ?dm = Some [(''P1_Left'', CovDefaultDict
          [(''US_machine'', JList [JStr ''X'']), (''Sex'', JList [JInt 1]),
           (''Age_wks'', JList [JInt 10])])]"
    by code_simp+
  have ne: "[0 :: int] \<noteq> []" by simp
  have sub: "set [''P1_Left''] \<subseteq> set (keys [(''P1_Left'', ImgSeq [([[11]], [[11 :: 8 word]])])])
      \<inter> set (keys [(''P1_Left'', 1 :: int)])
      \<inter> set (keys [(''P1_Left'', CovDefaultDict
          [(''US_machine'', JList [JStr ''X'']), (''Sex'', JList [JInt 1]),
           (''Age_wks'', JList [JInt 10])])])"
    by (simp add: keys_def)
  note nonempty = val_dataloader_none_or_exact[OF g' f' i' t1, THEN conjunct2, THEN conjunct1,
      rule_format, OF ne d sub]
  have n: "\<exists>loader dm'. val_dataloader ?dm = Inr (Some loader, dm')
         \<and> ds_study_ids (loader_dataset loader) = [''P1_Left'']"
    using nonempty by blast
  have s: "train_val_ids_generator ex_library_record ex_args ([], [], [], [''P1_Left''])
        = Inr [([0], [])]" by code_simp
  show ?thesis by (intro conjI) (fact g f i t0 e t1 n s)+
qed

end
